theory Spec2Isabelle
  imports Complex_Main "HOL-Library.Char_ord" "HOL-Library.List_Lexorder" "HOL-Library.Multiset"
begin

section \<open>Homevolt battery optimizer: data model\<close>

text \<open>
  The optimizer of \<^verbatim>\<open>homevolt_optimizer.py\<close> works on a list of dictionaries, one per
  quarter of an hour. A dictionary with a fixed set of keys is a record here. Energy
  amounts and prices are Python floats; they are modelled as exact reals, so every
  statement below is about the algorithm under exact arithmetic. The settings module
  \<^verbatim>\<open>homevolt_optimizer_settings\<close> is an input of the program: its constants are the
  fields of the record \<open>config\<close>, and every function takes that record as its first
  argument.
\<close>

record slot =
  index :: nat
  time :: string
  hour :: string
  price :: real
  cons_wh :: real
  solar_wh :: real
  grid_wh :: real
  batt_wh :: real
  base_net_load_wh :: real

type_synonym timeline = "slot list"

text \<open>
  \<open>PREVIOUS_PEAK_WH\<close> and \<open>TOTAL_ADDITIONAL_FEES\<close> are the derived constants of
  section 0 of the source (a product and a sum of settings).
\<close>

record config =
  BATTERY_ENERGY_WH :: real
  MAX_BATTERY_OUTPUT_PER_QUARTER_WH :: real
  LOW_SOC_THROTTLE_WH :: real
  LOW_SOC_MAX_OUTPUT_PER_QUARTER_WH :: real
  BIAS_WH_PER_QUARTER :: real
  MIN_BATTERY_BUFFER_WH :: real
  TRY_KEEP_HOURS_BELOW_WH :: "real option"
  PREVIOUS_PEAK_WH :: real
  ENABLE_ARBITRAGE :: bool
  MIN_PRICE_DIFF_ORE_FOR_SELLING :: real
  BATTERY_CYCLE_COST_ORE :: real
  TOTAL_ADDITIONAL_FEES :: real

datatype py_error = IndexError | KeyError | NameError | ValueError

text \<open>\<^verbatim>\<open>d.get(k, default)\<close> and \<^verbatim>\<open>d[k] += v\<close> on a Python dictionary.\<close>

definition dict_get :: "('k \<rightharpoonup> real) \<Rightarrow> 'k \<Rightarrow> real \<Rightarrow> real" where
  "dict_get d k dflt = (case d k of None \<Rightarrow> dflt | Some v \<Rightarrow> v)"

definition dict_add :: "('k \<rightharpoonup> real) \<Rightarrow> 'k \<Rightarrow> real \<Rightarrow> py_error + ('k \<rightharpoonup> real)" where
  "dict_add d k v = (case d k of None \<Rightarrow> Inl KeyError | Some w \<Rightarrow> Inr (d(k \<mapsto> w + v)))"

text \<open>\<^verbatim>\<open>d[k] -= v\<close>.\<close>

definition dict_sub :: "('k \<rightharpoonup> real) \<Rightarrow> 'k \<Rightarrow> real \<Rightarrow> py_error + ('k \<rightharpoonup> real)" where
  "dict_sub d k v = (case d k of None \<Rightarrow> Inl KeyError | Some w \<Rightarrow> Inr (d(k \<mapsto> w - v)))"

text \<open>An exception of the first computation ends the second one.\<close>

definition bind_err :: "py_error + 'a \<Rightarrow> ('a \<Rightarrow> py_error + 'b) \<Rightarrow> py_error + 'b" where
  "bind_err r f = (case r of Inl e \<Rightarrow> Inl e | Inr x \<Rightarrow> f x)"

text \<open>
  \<^verbatim>\<open>timeline[i]["grid_wh"] += v\<close>, \<^verbatim>\<open>-= v\<close> and \<^verbatim>\<open>= v\<close>, for an index that is in range.
\<close>

definition add_grid :: "timeline \<Rightarrow> nat \<Rightarrow> real \<Rightarrow> timeline" where
  "add_grid timeline i v = timeline[i := (timeline ! i)\<lparr>grid_wh := grid_wh (timeline ! i) + v\<rparr>]"

definition sub_grid :: "timeline \<Rightarrow> nat \<Rightarrow> real \<Rightarrow> timeline" where
  "sub_grid timeline i v = timeline[i := (timeline ! i)\<lparr>grid_wh := grid_wh (timeline ! i) - v\<rparr>]"

definition set_grid :: "timeline \<Rightarrow> nat \<Rightarrow> real \<Rightarrow> timeline" where
  "set_grid timeline i v = timeline[i := (timeline ! i)\<lparr>grid_wh := v\<rparr>]"

text \<open>
  The discharge of a slot as every later phase reads it off the timeline:
  \<^verbatim>\<open>dis = item["base_net_load_wh"] - (item["grid_wh"] + BIAS_WH_PER_QUARTER)\<close>.
\<close>

definition slot_discharge :: "config \<Rightarrow> slot \<Rightarrow> real" where
  "slot_discharge cfg item =
     base_net_load_wh item - (grid_wh item + BIAS_WH_PER_QUARTER cfg)"

section \<open>Core algorithm functions\<close>

subsection \<open>Battery profile simulator\<close>

text \<open>
  \<^verbatim>\<open>calculate_battery_profile_from_list\<close>: the loop runs over \<open>grid_cmds\<close> and reads
  \<open>timeline[i]\<close>, which raises \<open>IndexError\<close> when the timeline is shorter.
\<close>

fun battery_profile_loop :: "config \<Rightarrow> real \<Rightarrow> nat \<Rightarrow> real list \<Rightarrow> timeline \<Rightarrow> py_error + real list" where
  "battery_profile_loop cfg cur i [] timeline = Inr []"
| "battery_profile_loop cfg cur i (g # gs) timeline =
     (if i < length timeline then
        (let actual = g + BIAS_WH_PER_QUARTER cfg;
             change = actual - base_net_load_wh (timeline ! i);
             cur = cur + change;
             cur = (if cur > BATTERY_ENERGY_WH cfg then BATTERY_ENERGY_WH cfg else cur)
         in case battery_profile_loop cfg cur (Suc i) gs timeline of
              Inl e \<Rightarrow> Inl e
            | Inr profile \<Rightarrow> Inr (cur # profile))
      else Inl IndexError)"

definition calculate_battery_profile_from_list ::
    "config \<Rightarrow> real \<Rightarrow> real list \<Rightarrow> timeline \<Rightarrow> py_error + real list" where
  "calculate_battery_profile_from_list cfg soc_start grid_cmds timeline =
     battery_profile_loop cfg soc_start 0 grid_cmds timeline"

subsection \<open>Hourly usage map\<close>

fun get_hourly_usage_loop :: "config \<Rightarrow> (string \<rightharpoonup> real) \<Rightarrow> timeline \<Rightarrow> (string \<rightharpoonup> real)" where
  "get_hourly_usage_loop cfg u [] = u"
| "get_hourly_usage_loop cfg u (x # xs) =
     (let h = hour x; g = grid_wh x + BIAS_WH_PER_QUARTER cfg
      in get_hourly_usage_loop cfg (if g > 0 then u(h \<mapsto> dict_get u h 0 + g) else u) xs)"

definition get_hourly_usage_map :: "config \<Rightarrow> timeline \<Rightarrow> (string \<rightharpoonup> real)" where
  "get_hourly_usage_map cfg timeline = get_hourly_usage_loop cfg Map.empty timeline"

subsection \<open>Peak-shaving solver\<close>

definition peak_possible :: "config \<Rightarrow> timeline \<Rightarrow> real \<Rightarrow> bool" where
  "peak_possible cfg timeline mid =
     list_all (\<lambda>item.
       let usable = mid - BIAS_WH_PER_QUARTER cfg;
           usable = (if usable < 0 then 0 else usable);
           needed = base_net_load_wh item - usable;
           needed = (if needed < 0 then 0 else needed)
       in \<not> needed > MAX_BATTERY_OUTPUT_PER_QUARTER_WH cfg) timeline"

definition total_needed :: "config \<Rightarrow> timeline \<Rightarrow> real \<Rightarrow> real" where
  "total_needed cfg timeline mid =
     sum_list (map (\<lambda>x. max 0 (base_net_load_wh x - (mid - BIAS_WH_PER_QUARTER cfg))) timeline)"

fun min_peak_bisect :: "nat \<Rightarrow> config \<Rightarrow> timeline \<Rightarrow> real \<Rightarrow> real \<Rightarrow> real \<Rightarrow> real \<Rightarrow> real" where
  "min_peak_bisect 0 cfg timeline available low high best = best"
| "min_peak_bisect (Suc n) cfg timeline available low high best =
     (let mid = (low + high) / 2
      in if peak_possible cfg timeline mid \<and> total_needed cfg timeline mid \<le> available
         then min_peak_bisect n cfg timeline available low mid mid
         else min_peak_bisect n cfg timeline available mid high best)"

definition calculate_min_peak_limit :: "config \<Rightarrow> timeline \<Rightarrow> real \<Rightarrow> real" where
  "calculate_min_peak_limit cfg timeline available_energy_wh =
     min_peak_bisect 20 cfg timeline available_energy_wh 0 10000 10000"

text \<open>The discharge that the loop of \<^verbatim>\<open>phase_1_peak_shaving\<close> computes for one slot.\<close>

definition peak_shave_dis :: "config \<Rightarrow> real \<Rightarrow> real \<Rightarrow> slot \<Rightarrow> real" where
  "peak_shave_dis cfg optimal curr_soc item =
     (let use_grid = optimal - BIAS_WH_PER_QUARTER cfg;
          use_grid = (if use_grid < 0 then 0 else use_grid);
          dis = base_net_load_wh item - use_grid;
          dis = (if dis < 0 then 0 else dis);
          dis = (if dis > MAX_BATTERY_OUTPUT_PER_QUARTER_WH cfg
                 then MAX_BATTERY_OUTPUT_PER_QUARTER_WH cfg else dis);
          dis = (if curr_soc - dis < MIN_BATTERY_BUFFER_WH cfg
                 then max 0 (curr_soc - MIN_BATTERY_BUFFER_WH cfg) else dis)
      in dis)"

fun phase_1_loop :: "config \<Rightarrow> real \<Rightarrow> real \<Rightarrow> timeline \<Rightarrow> timeline" where
  "phase_1_loop cfg optimal curr_soc [] = []"
| "phase_1_loop cfg optimal curr_soc (item # rest) =
     (let dis = peak_shave_dis cfg optimal curr_soc item;
          curr_soc = curr_soc - dis
      in item\<lparr>grid_wh := (base_net_load_wh item - dis) - BIAS_WH_PER_QUARTER cfg,
              batt_wh := curr_soc\<rparr>
         # phase_1_loop cfg optimal curr_soc rest)"

text \<open>Returns the timeline after the pass, the import limit and the warning flag.\<close>

definition phase_1_peak_shaving :: "config \<Rightarrow> timeline \<Rightarrow> real \<Rightarrow> timeline \<times> real \<times> bool" where
  "phase_1_peak_shaving cfg timeline current_battery_wh =
     (let usable = current_battery_wh - MIN_BATTERY_BUFFER_WH cfg;
          usable = (if usable < 0 then 0 else usable);
          optimal = (case TRY_KEEP_HOURS_BELOW_WH cfg of
                       Some v \<Rightarrow> v / 4
                     | None \<Rightarrow> calculate_min_peak_limit cfg timeline usable);
          monthly_peak = PREVIOUS_PEAK_WH cfg / 4;
          warning_flag = (optimal > monthly_peak)
      in (phase_1_loop cfg optimal current_battery_wh timeline, optimal, warning_flag))"

subsection \<open>Safety throttle corrector\<close>

record candidate =
  cand_index :: nat
  cand_price :: real
  headroom :: real
  cand_hour :: string

text \<open>\<^verbatim>\<open>max(xs)\<close> of a list that is known not to be empty.\<close>

definition max_nonempty :: "real list \<Rightarrow> real" where
  "max_nonempty xs = fold max (tl xs) (hd xs)"

text \<open>
  The loop of the nested function \<^verbatim>\<open>get_candidates\<close> over \<^verbatim>\<open>range(end_index + 1)\<close>;
  \<open>rel\<close> is the slice \<^verbatim>\<open>base_profile[i : end_index + 1]\<close>.
\<close>

fun get_candidates_loop ::
    "config \<Rightarrow> timeline \<Rightarrow> (string \<rightharpoonup> real) \<Rightarrow> bool \<Rightarrow> real list \<Rightarrow> nat \<Rightarrow> nat list
     \<Rightarrow> py_error + candidate list" where
  "get_candidates_loop cfg timeline hourly_usage ignore_peak_limit base_profile end_index [] = Inr []"
| "get_candidates_loop cfg timeline hourly_usage ignore_peak_limit base_profile end_index (i # js) =
     (if i < length timeline then
        (let item = timeline ! i;
             rel = take (end_index + 1 - i) (drop i base_profile);
             max_s = (if rel \<noteq> [] then max_nonempty rel else BATTERY_ENERGY_WH cfg);
             cap_h = BATTERY_ENERGY_WH cfg - max_s;
             rest = get_candidates_loop cfg timeline hourly_usage ignore_peak_limit
                      base_profile end_index js;
             append = (\<lambda>act_h. case rest of
                         Inl e \<Rightarrow> Inl e
                       | Inr cands \<Rightarrow>
                           Inr (\<lparr>cand_index = i, cand_price = price item, headroom = act_h,
                                 cand_hour = hour item\<rparr> # cands))
         in if cap_h \<le> 1 then rest
            else if \<not> ignore_peak_limit then
              (let peak_h = PREVIOUS_PEAK_WH cfg - dict_get hourly_usage (hour item) 0
               in if peak_h \<le> 1 then rest else append (min cap_h peak_h))
            else append (min cap_h (MAX_BATTERY_OUTPUT_PER_QUARTER_WH cfg)))
      else Inl IndexError)"

definition get_candidates ::
    "config \<Rightarrow> timeline \<Rightarrow> (string \<rightharpoonup> real) \<Rightarrow> real \<Rightarrow> nat \<Rightarrow> bool \<Rightarrow> py_error + candidate list" where
  "get_candidates cfg timeline hourly_usage current_battery_wh end_index ignore_peak_limit =
     (case calculate_battery_profile_from_list cfg current_battery_wh (map grid_wh timeline) timeline of
        Inl e \<Rightarrow> Inl e
      | Inr base_profile \<Rightarrow>
          get_candidates_loop cfg timeline hourly_usage ignore_peak_limit base_profile end_index
            [0..<end_index + 1])"

fun safety_fill_pass1 ::
    "timeline \<Rightarrow> (string \<rightharpoonup> real) \<Rightarrow> real \<Rightarrow> candidate list
     \<Rightarrow> py_error + (timeline \<times> (string \<rightharpoonup> real) \<times> real)" where
  "safety_fill_pass1 timeline hourly_usage rem [] = Inr (timeline, hourly_usage, rem)"
| "safety_fill_pass1 timeline hourly_usage rem (c # cs) =
     (if rem \<le> 0 then Inr (timeline, hourly_usage, rem)
      else
        (let take_wh = min rem (headroom c);
             timeline = add_grid timeline (cand_index c) take_wh
         in case dict_add hourly_usage (cand_hour c) take_wh of
              Inl e \<Rightarrow> Inl e
            | Inr hourly_usage \<Rightarrow> safety_fill_pass1 timeline hourly_usage (rem - take_wh) cs))"

fun safety_fill_pass2 :: "timeline \<Rightarrow> real \<Rightarrow> candidate list \<Rightarrow> timeline \<times> real" where
  "safety_fill_pass2 timeline rem [] = (timeline, rem)"
| "safety_fill_pass2 timeline rem (c # cs) =
     (if rem \<le> 0 then (timeline, rem)
      else
        (let take_wh = min rem (headroom c)
         in safety_fill_pass2 (add_grid timeline (cand_index c) take_wh) (rem - take_wh) cs))"

text \<open>The last resort: what is still missing goes onto the first slot.\<close>

definition safety_fill_rest :: "timeline \<Rightarrow> real \<Rightarrow> py_error + timeline" where
  "safety_fill_rest timeline rem =
     (if rem > 0 then (if timeline = [] then Inl IndexError else Inr (add_grid timeline 0 rem))
      else Inr timeline)"

definition distribute_smart_safety_fill ::
    "config \<Rightarrow> timeline \<Rightarrow> real \<Rightarrow> nat \<Rightarrow> real \<Rightarrow> py_error + timeline" where
  "distribute_smart_safety_fill cfg timeline needed end_index current_battery_wh =
     (let hourly_usage = get_hourly_usage_map cfg timeline
      in case get_candidates cfg timeline hourly_usage current_battery_wh end_index False of
           Inl e \<Rightarrow> Inl e
         | Inr candidates \<Rightarrow>
             (case safety_fill_pass1 timeline hourly_usage needed (sort_key cand_price candidates) of
                Inl e \<Rightarrow> Inl e
              | Inr (timeline, hourly_usage, rem) \<Rightarrow>
                  (if rem > 0 then
                     (case get_candidates cfg timeline hourly_usage current_battery_wh end_index True of
                        Inl e \<Rightarrow> Inl e
                      | Inr cands2 \<Rightarrow>
                          (case safety_fill_pass2 timeline rem (sort_key cand_price cands2) of
                             (timeline, rem) \<Rightarrow> safety_fill_rest timeline rem))
                   else safety_fill_rest timeline rem)))"

text \<open>
  The scan of \<^verbatim>\<open>phase_2_safety_checks\<close> for the first slot that discharges more than the
  throttled rate from a charge below the throttle threshold; it gives the slot and the
  energy needed.
\<close>

fun first_violation :: "config \<Rightarrow> timeline \<Rightarrow> real \<Rightarrow> real list \<Rightarrow> nat list \<Rightarrow> (nat \<times> real) option" where
  "first_violation cfg timeline current_battery_wh profile [] = None"
| "first_violation cfg timeline current_battery_wh profile (i # js) =
     (let item = timeline ! i;
          start_soc = (if i = 0 then current_battery_wh else profile ! (i - 1));
          act_grid = grid_wh item + BIAS_WH_PER_QUARTER cfg;
          dis = base_net_load_wh item - act_grid
      in if dis > LOW_SOC_MAX_OUTPUT_PER_QUARTER_WH cfg \<and> start_soc < LOW_SOC_THROTTLE_WH cfg
         then Some (i, LOW_SOC_THROTTLE_WH cfg - start_soc + 1)
         else first_violation cfg timeline current_battery_wh profile js)"

function phase_2_loop :: "config \<Rightarrow> real \<Rightarrow> nat \<Rightarrow> timeline \<Rightarrow> py_error + timeline" where
  "phase_2_loop cfg current_battery_wh safety_iter timeline =
     (if safety_iter < 10 then
        (case calculate_battery_profile_from_list cfg current_battery_wh
                (map grid_wh timeline) timeline of
           Inl e \<Rightarrow> Inl e
         | Inr profile \<Rightarrow>
             (case first_violation cfg timeline current_battery_wh profile [0..<length timeline] of
                None \<Rightarrow> Inr timeline
              | Some (i, needed) \<Rightarrow>
                  (case distribute_smart_safety_fill cfg timeline needed i current_battery_wh of
                     Inl e \<Rightarrow> Inl e
                   | Inr timeline' \<Rightarrow>
                       phase_2_loop cfg current_battery_wh (safety_iter + 1) timeline')))
      else Inr timeline)"
  by pat_completeness auto
termination
  by (relation "measure (\<lambda>(cfg, current_battery_wh, safety_iter, timeline). 10 - safety_iter)") auto

definition phase_2_safety_checks :: "config \<Rightarrow> timeline \<Rightarrow> real \<Rightarrow> py_error + timeline" where
  "phase_2_safety_checks cfg timeline current_battery_wh =
     phase_2_loop cfg current_battery_wh 0 timeline"

subsection \<open>Cheap-hour fill optimizer\<close>

definition avg_price :: "timeline \<Rightarrow> real" where
  "avg_price timeline =
     (if timeline \<noteq> [] then sum_list (map price timeline) / real (length timeline) else 0)"

text \<open>
  \<open>cheap_candidates\<close> holds references to the dictionaries of the timeline; the model
  keeps their positions, so that the loop reads and writes the current timeline.
\<close>

definition cheap_candidates :: "timeline \<Rightarrow> nat list" where
  "cheap_candidates timeline =
     sort_key (\<lambda>i. price (timeline ! i))
       (filter (\<lambda>i. price (timeline ! i) < avg_price timeline) [0..<length timeline])"

text \<open>The nested function \<^verbatim>\<open>check_capacity\<close>; \<^verbatim>\<open>max\<close> of an empty list raises.\<close>

definition check_capacity :: "config \<Rightarrow> timeline \<Rightarrow> real \<Rightarrow> py_error + bool" where
  "check_capacity cfg timeline current_battery_wh =
     (case calculate_battery_profile_from_list cfg current_battery_wh (map grid_wh timeline) timeline of
        Inl e \<Rightarrow> Inl e
      | Inr prof \<Rightarrow>
          (if prof = [] then Inl ValueError
           else Inr (max_nonempty prof \<le> BATTERY_ENERGY_WH cfg)))"

text \<open>One round of the loop over the candidates, for the candidate at position \<open>i\<close>.\<close>

definition smart_fill_step ::
    "config \<Rightarrow> real \<Rightarrow> real \<Rightarrow> timeline \<times> (string \<rightharpoonup> real) \<Rightarrow> nat
     \<Rightarrow> py_error + (timeline \<times> (string \<rightharpoonup> real))" where
  "smart_fill_step cfg current_battery_wh limit_wh st i =
     (case st of (timeline, hourly_usage) \<Rightarrow>
        (let item = timeline ! i;
             curr_h_sum = dict_get hourly_usage (hour item) 0;
             room_to_peak = limit_wh - curr_h_sum
         in if room_to_peak < 1 then Inr (timeline, hourly_usage)
            else
              (let curr_grid = grid_wh item + BIAS_WH_PER_QUARTER cfg;
                   net_load = base_net_load_wh item;
                   room_to_load = net_load - curr_grid
               in if room_to_load < 1 then Inr (timeline, hourly_usage)
                  else
                    (let take_wh = min room_to_peak room_to_load;
                         timeline1 = add_grid timeline i take_wh
                     in case dict_add hourly_usage (hour item) take_wh of
                          Inl e \<Rightarrow> Inl e
                        | Inr hourly_usage1 \<Rightarrow>
                            (case check_capacity cfg timeline1 current_battery_wh of
                               Inl e \<Rightarrow> Inl e
                             | Inr ok \<Rightarrow>
                                 (if \<not> ok then
                                    (case dict_sub hourly_usage1 (hour item) take_wh of
                                       Inl e \<Rightarrow> Inl e
                                     | Inr hourly_usage2 \<Rightarrow>
                                         Inr (sub_grid timeline1 i take_wh, hourly_usage2))
                                  else Inr (timeline1, hourly_usage1)))))))"

fun smart_fill_loop ::
    "config \<Rightarrow> real \<Rightarrow> real \<Rightarrow> timeline \<times> (string \<rightharpoonup> real) \<Rightarrow> nat list
     \<Rightarrow> py_error + (timeline \<times> (string \<rightharpoonup> real))" where
  "smart_fill_loop cfg current_battery_wh limit_wh st [] = Inr st"
| "smart_fill_loop cfg current_battery_wh limit_wh st (i # js) =
     (case smart_fill_step cfg current_battery_wh limit_wh st i of
        Inl e \<Rightarrow> Inl e
      | Inr st' \<Rightarrow> smart_fill_loop cfg current_battery_wh limit_wh st' js)"

definition phase_smart_fill_cheap_hours :: "config \<Rightarrow> timeline \<Rightarrow> real \<Rightarrow> real \<Rightarrow> py_error + timeline" where
  "phase_smart_fill_cheap_hours cfg timeline current_battery_wh limit_wh =
     (case smart_fill_loop cfg current_battery_wh limit_wh
             (timeline, get_hourly_usage_map cfg timeline) (cheap_candidates timeline) of
        Inl e \<Rightarrow> Inl e
      | Inr (timeline', hourly_usage) \<Rightarrow> Inr timeline')"

text \<open>
  The round of the cheap-hour fill with every applied increase kept: there is no capacity
  test and no rollback. It is compared with \<open>smart_fill_step\<close> below.
\<close>

definition smart_fill_step_kept ::
    "config \<Rightarrow> real \<Rightarrow> timeline \<times> (string \<rightharpoonup> real) \<Rightarrow> nat
     \<Rightarrow> py_error + (timeline \<times> (string \<rightharpoonup> real))" where
  "smart_fill_step_kept cfg limit_wh st i =
     (case st of (timeline, hourly_usage) \<Rightarrow>
        (let item = timeline ! i;
             room_to_peak = limit_wh - dict_get hourly_usage (hour item) 0;
             room_to_load = base_net_load_wh item - (grid_wh item + BIAS_WH_PER_QUARTER cfg);
             take_wh = min room_to_peak room_to_load
         in if room_to_peak < 1 \<or> room_to_load < 1 then Inr (timeline, hourly_usage)
            else (case dict_add hourly_usage (hour item) take_wh of
                    Inl e \<Rightarrow> Inl e
                  | Inr hourly_usage1 \<Rightarrow> Inr (add_grid timeline i take_wh, hourly_usage1))))"

fun smart_fill_loop_kept ::
    "config \<Rightarrow> real \<Rightarrow> timeline \<times> (string \<rightharpoonup> real) \<Rightarrow> nat list
     \<Rightarrow> py_error + (timeline \<times> (string \<rightharpoonup> real))" where
  "smart_fill_loop_kept cfg limit_wh st [] = Inr st"
| "smart_fill_loop_kept cfg limit_wh st (i # js) =
     (case smart_fill_step_kept cfg limit_wh st i of
        Inl e \<Rightarrow> Inl e
      | Inr st' \<Rightarrow> smart_fill_loop_kept cfg limit_wh st' js)"



subsection \<open>Intra-hour reallocator\<close>

definition hour_indices :: "timeline \<Rightarrow> string \<Rightarrow> nat list" where
  "hour_indices timeline h = filter (\<lambda>i. hour (timeline ! i) = h) [0..<length timeline]"

definition hour_total_grid :: "config \<Rightarrow> timeline \<Rightarrow> nat list \<Rightarrow> real" where
  "hour_total_grid cfg timeline indices =
     sum_list (map (\<lambda>i. grid_wh (timeline ! i) + BIAS_WH_PER_QUARTER cfg) indices)"

text \<open>\<^verbatim>\<open>current_soc -= dis\<close> for every slot of the hour, with the grid values of the timeline.\<close>

fun track_soc :: "config \<Rightarrow> timeline \<Rightarrow> real \<Rightarrow> nat list \<Rightarrow> real" where
  "track_soc cfg timeline current_soc [] = current_soc"
| "track_soc cfg timeline current_soc (i # js) =
     (let g = grid_wh (timeline ! i) + BIAS_WH_PER_QUARTER cfg;
          d = base_net_load_wh (timeline ! i) - g
      in track_soc cfg timeline (current_soc - d) js)"

text \<open>The first allocation loop: every quarter, cheapest first, takes up to its own load.\<close>

fun allocate_load :: "(nat \<rightharpoonup> real) \<Rightarrow> real \<Rightarrow> slot list \<Rightarrow> (nat \<rightharpoonup> real) \<times> real" where
  "allocate_load allocated remaining_budget [] = (allocated, remaining_budget)"
| "allocate_load allocated remaining_budget (q # qs) =
     (let max_take = max 0 (base_net_load_wh q);
          take_wh = min remaining_budget max_take
      in allocate_load (allocated(index q \<mapsto> take_wh)) (remaining_budget - take_wh) qs)"

text \<open>The second loop: what is left goes into charging room, cheapest first.\<close>

fun allocate_charge ::
    "config \<Rightarrow> (nat \<rightharpoonup> real) \<Rightarrow> real \<Rightarrow> slot list \<Rightarrow> py_error + ((nat \<rightharpoonup> real) \<times> real)" where
  "allocate_charge cfg allocated remaining_budget [] = Inr (allocated, remaining_budget)"
| "allocate_charge cfg allocated remaining_budget (q # qs) =
     (case allocated (index q) of
        None \<Rightarrow> Inl KeyError
      | Some curr_val \<Rightarrow>
          (let max_grid_charge = base_net_load_wh q + MAX_BATTERY_OUTPUT_PER_QUARTER_WH cfg;
               room = max_grid_charge - curr_val;
               take_wh = min remaining_budget room;
               allocated = (if room > 0 then allocated(index q \<mapsto> curr_val + take_wh) else allocated);
               remaining_budget = (if room > 0 then remaining_budget - take_wh else remaining_budget)
           in if remaining_budget \<le> 0 then Inr (allocated, remaining_budget)
              else allocate_charge cfg allocated remaining_budget qs))"

text \<open>The dictionary \<open>allocated\<close> of one hour, from the quarters of the hour.\<close>

definition allocate_hour :: "config \<Rightarrow> timeline \<Rightarrow> nat list \<Rightarrow> py_error + (nat \<rightharpoonup> real)" where
  "allocate_hour cfg timeline indices =
     (let quarters = sort_key price (map (\<lambda>i. timeline ! i) indices);
          allocated = fold (\<lambda>q m. m(index q \<mapsto> 0)) quarters Map.empty;
          remaining_budget = hour_total_grid cfg timeline indices
      in case allocate_load allocated remaining_budget quarters of
           (allocated, remaining_budget) \<Rightarrow>
             (if remaining_budget > 0 then
                (case allocate_charge cfg allocated remaining_budget quarters of
                   Inl e \<Rightarrow> Inl e
                 | Inr (allocated, remaining_budget) \<Rightarrow> Inr allocated)
              else Inr allocated))"

text \<open>\<^verbatim>\<open>for i in indices: timeline[i]["grid_wh"] = allocated[i] - BIAS_WH_PER_QUARTER\<close>.\<close>

fun assign_allocated :: "config \<Rightarrow> (nat \<rightharpoonup> real) \<Rightarrow> timeline \<Rightarrow> nat list \<Rightarrow> py_error + timeline" where
  "assign_allocated cfg allocated timeline [] = Inr timeline"
| "assign_allocated cfg allocated timeline (i # js) =
     (case allocated i of
        None \<Rightarrow> Inl KeyError
      | Some v \<Rightarrow>
          assign_allocated cfg allocated (set_grid timeline i (v - BIAS_WH_PER_QUARTER cfg)) js)"

text \<open>\<^verbatim>\<open>for i in indices: timeline[i]["grid_wh"] = original_grids[i]\<close>.\<close>

fun restore_grids :: "(nat \<rightharpoonup> real) \<Rightarrow> timeline \<Rightarrow> nat list \<Rightarrow> py_error + timeline" where
  "restore_grids saved timeline [] = Inr timeline"
| "restore_grids saved timeline (i # js) =
     (case saved i of
        None \<Rightarrow> Inl KeyError
      | Some v \<Rightarrow> restore_grids saved (set_grid timeline i v) js)"

definition original_grids :: "timeline \<Rightarrow> nat list \<Rightarrow> (nat \<rightharpoonup> real)" where
  "original_grids timeline indices =
     fold (\<lambda>i m. m(i \<mapsto> grid_wh (timeline ! i))) indices Map.empty"

text \<open>The timeline of an hour with the new assignment written into it, before validation.\<close>

definition tentative_assignment :: "config \<Rightarrow> timeline \<Rightarrow> nat list \<Rightarrow> py_error + timeline" where
  "tentative_assignment cfg timeline indices =
     (case allocate_hour cfg timeline indices of
        Inl e \<Rightarrow> Inl e
      | Inr allocated \<Rightarrow> assign_allocated cfg allocated timeline indices)"

text \<open>The validation loop; it gives the running charge estimate and the flag \<open>valid\<close>.\<close>

fun validate_hour :: "config \<Rightarrow> timeline \<Rightarrow> real \<Rightarrow> bool \<Rightarrow> nat list \<Rightarrow> real \<times> bool" where
  "validate_hour cfg timeline temp_soc valid [] = (temp_soc, valid)"
| "validate_hour cfg timeline temp_soc valid (i # js) =
     (let act = grid_wh (timeline ! i) + BIAS_WH_PER_QUARTER cfg;
          dis = base_net_load_wh (timeline ! i) - act;
          valid = (if dis > MAX_BATTERY_OUTPUT_PER_QUARTER_WH cfg then False else valid);
          valid = (if temp_soc < LOW_SOC_THROTTLE_WH cfg
                      \<and> dis > LOW_SOC_MAX_OUTPUT_PER_QUARTER_WH cfg then False else valid);
          valid = (if temp_soc - dis < MIN_BATTERY_BUFFER_WH cfg then False else valid);
          temp_soc = temp_soc - dis;
          temp_soc = (if temp_soc > BATTERY_ENERGY_WH cfg then BATTERY_ENERGY_WH cfg else temp_soc)
      in validate_hour cfg timeline temp_soc valid js)"

text \<open>One round of the loop over the hours: the timeline and \<open>current_soc\<close> after it.\<close>

definition optimize_hour ::
    "config \<Rightarrow> timeline \<times> real \<Rightarrow> string \<Rightarrow> py_error + (timeline \<times> real)" where
  "optimize_hour cfg st h =
     (case st of (timeline, current_soc) \<Rightarrow>
        (let indices = hour_indices timeline h
         in if indices = [] then Inr (timeline, current_soc)
            else if hour_total_grid cfg timeline indices \<le> 0
            then Inr (timeline, track_soc cfg timeline current_soc indices)
            else
              (let saved = original_grids timeline indices
               in case tentative_assignment cfg timeline indices of
                    Inl e \<Rightarrow> Inl e
                  | Inr timeline1 \<Rightarrow>
                      (case validate_hour cfg timeline1 current_soc True (sort indices) of
                         (temp_soc, valid) \<Rightarrow>
                           (if valid then Inr (timeline1, temp_soc)
                            else
                              (case restore_grids saved timeline1 indices of
                                 Inl e \<Rightarrow> Inl e
                               | Inr timeline2 \<Rightarrow>
                                   Inr (timeline2, track_soc cfg timeline2 current_soc indices)))))))"

fun optimize_hours_loop ::
    "config \<Rightarrow> timeline \<times> real \<Rightarrow> string list \<Rightarrow> py_error + (timeline \<times> real)" where
  "optimize_hours_loop cfg st [] = Inr st"
| "optimize_hours_loop cfg st (h # hs) =
     (case optimize_hour cfg st h of
        Inl e \<Rightarrow> Inl e
      | Inr st' \<Rightarrow> optimize_hours_loop cfg st' hs)"

definition unique_hours :: "timeline \<Rightarrow> string list" where
  "unique_hours timeline = sort (remdups (map hour timeline))"

definition phase_optimize_within_hours :: "config \<Rightarrow> timeline \<Rightarrow> real \<Rightarrow> py_error + timeline" where
  "phase_optimize_within_hours cfg timeline current_battery_wh =
     (case optimize_hours_loop cfg (timeline, current_battery_wh) (unique_hours timeline) of
        Inl e \<Rightarrow> Inl e
      | Inr (timeline', current_soc) \<Rightarrow> Inr timeline')"


definition erase_grid :: "slot \<Rightarrow> slot" where
  "erase_grid x = x\<lparr>grid_wh := 0\<rparr>"



subsection \<open>Arbitrage swap engine\<close>

definition raise_swap_ceiling :: "config \<Rightarrow> timeline \<Rightarrow> real \<Rightarrow> real" where
  "raise_swap_ceiling cfg timeline swap_ceiling_wh =
     (let curr_max = fold (\<lambda>x curr_max.
                        let g = grid_wh x + BIAS_WH_PER_QUARTER cfg
                        in if g > curr_max then g else curr_max) timeline 0
      in if curr_max > swap_ceiling_wh then curr_max else swap_ceiling_wh)"

text \<open>
  The checks of the outer loop of \<^verbatim>\<open>phase_3_price_optimization\<close> on the slot \<open>t_c\<close>
  that would import more, and of the inner loop on the pair; each conjunct is the
  negation of one \<^verbatim>\<open>continue\<close>, in the order of the source.
\<close>

definition swap_source_ok :: "config \<Rightarrow> timeline \<Rightarrow> real \<Rightarrow> nat \<Rightarrow> bool" where
  "swap_source_ok cfg timeline swap_ceiling_wh t_c =
     (let item_c = timeline ! t_c;
          act_c = grid_wh item_c + BIAS_WH_PER_QUARTER cfg;
          dis_c = base_net_load_wh item_c - act_c
      in \<not> dis_c \<le> 0 \<and> \<not> act_c \<ge> swap_ceiling_wh)"

definition swap_pair_ok :: "config \<Rightarrow> timeline \<Rightarrow> real \<Rightarrow> real list \<Rightarrow> nat \<Rightarrow> nat \<Rightarrow> bool" where
  "swap_pair_ok cfg timeline current_battery_wh curr_prof t_c t_e =
     (let item_c = timeline ! t_c;
          item_e = timeline ! t_e;
          p_diff = price item_e - price item_c;
          act_e = grid_wh item_e + BIAS_WH_PER_QUARTER cfg;
          dis_e = base_net_load_wh item_e - act_e;
          start_soc_e = (if t_e = 0 then current_battery_wh else curr_prof ! (t_e - 1))
      in t_c \<noteq> t_e
         \<and> \<not> p_diff < BATTERY_CYCLE_COST_ORE cfg
         \<and> \<not> dis_e \<ge> MAX_BATTERY_OUTPUT_PER_QUARTER_WH cfg
         \<and> \<not> (start_soc_e < LOW_SOC_THROTTLE_WH cfg
               \<and> dis_e \<ge> LOW_SOC_MAX_OUTPUT_PER_QUARTER_WH cfg)
         \<and> \<not> t_c > t_e
         \<and> list_all (\<lambda>k. \<not> curr_prof ! k \<ge> BATTERY_ENERGY_WH cfg - 1) [t_c..<t_e])"

fun swap_scan_inner ::
    "config \<Rightarrow> timeline \<Rightarrow> real \<Rightarrow> real list \<Rightarrow> nat \<Rightarrow> (nat \<times> nat) option \<times> real \<Rightarrow> nat list
     \<Rightarrow> (nat \<times> nat) option \<times> real" where
  "swap_scan_inner cfg timeline current_battery_wh curr_prof t_c acc [] = acc"
| "swap_scan_inner cfg timeline current_battery_wh curr_prof t_c acc (t_e # es) =
     (case acc of (best_swap, max_spread) \<Rightarrow>
        (let p_diff = price (timeline ! t_e) - price (timeline ! t_c)
         in swap_scan_inner cfg timeline current_battery_wh curr_prof t_c
              (if swap_pair_ok cfg timeline current_battery_wh curr_prof t_c t_e
                  \<and> p_diff > max_spread
               then (Some (t_c, t_e), p_diff) else (best_swap, max_spread)) es))"

fun swap_scan_outer ::
    "config \<Rightarrow> timeline \<Rightarrow> real \<Rightarrow> real list \<Rightarrow> real \<Rightarrow> (nat \<times> nat) option \<times> real \<Rightarrow> nat list
     \<Rightarrow> (nat \<times> nat) option \<times> real" where
  "swap_scan_outer cfg timeline current_battery_wh curr_prof swap_ceiling_wh acc [] = acc"
| "swap_scan_outer cfg timeline current_battery_wh curr_prof swap_ceiling_wh acc (t_c # cs) =
     swap_scan_outer cfg timeline current_battery_wh curr_prof swap_ceiling_wh
       (if swap_source_ok cfg timeline swap_ceiling_wh t_c
        then swap_scan_inner cfg timeline current_battery_wh curr_prof t_c acc [0..<length timeline]
        else acc) cs"

text \<open>One round of the \<^verbatim>\<open>while\<close> loop up to the test of \<open>best_swap\<close>.\<close>

definition find_best_swap ::
    "config \<Rightarrow> timeline \<Rightarrow> real \<Rightarrow> real \<Rightarrow> py_error + (nat \<times> nat) option" where
  "find_best_swap cfg timeline current_battery_wh swap_ceiling_wh =
     (case calculate_battery_profile_from_list cfg current_battery_wh (map grid_wh timeline) timeline of
        Inl e \<Rightarrow> Inl e
      | Inr curr_prof \<Rightarrow>
          Inr (fst (swap_scan_outer cfg timeline current_battery_wh curr_prof swap_ceiling_wh
                      (None, 0) [0..<length timeline])))"

text \<open>The \<^verbatim>\<open>while\<close> loop; the result carries the final value of \<open>swap_iter\<close>.\<close>

function phase_3_loop ::
    "config \<Rightarrow> real \<Rightarrow> real \<Rightarrow> nat \<Rightarrow> timeline \<Rightarrow> py_error + (timeline \<times> nat)" where
  "phase_3_loop cfg current_battery_wh swap_ceiling_wh swap_iter timeline =
     (if swap_iter < 500 then
        (case find_best_swap cfg timeline current_battery_wh swap_ceiling_wh of
           Inl e \<Rightarrow> Inl e
         | Inr None \<Rightarrow> Inr (timeline, swap_iter + 1)
         | Inr (Some (s, d)) \<Rightarrow>
             phase_3_loop cfg current_battery_wh swap_ceiling_wh (swap_iter + 1)
               (sub_grid (add_grid timeline s 50) d 50))
      else Inr (timeline, swap_iter))"
  by pat_completeness auto
termination
  by (relation "measure (\<lambda>(cfg, current_battery_wh, swap_ceiling_wh, swap_iter, timeline).
        500 - swap_iter)") auto

definition phase_3_price_optimization :: "config \<Rightarrow> timeline \<Rightarrow> real \<Rightarrow> real \<Rightarrow> py_error + timeline" where
  "phase_3_price_optimization cfg timeline current_battery_wh swap_ceiling_wh =
     (case phase_3_loop cfg current_battery_wh
             (raise_swap_ceiling cfg timeline swap_ceiling_wh) 0 timeline of
        Inl e \<Rightarrow> Inl e
      | Inr (timeline', swap_iter) \<Rightarrow> Inr timeline')"

text \<open>
  The checks of \<^verbatim>\<open>phase_4_active_arbitrage\<close> on the slot \<open>t_b\<close> that buys and on the
  pair of the buying and the selling slot.
\<close>

definition arb_buy_ok :: "config \<Rightarrow> timeline \<Rightarrow> (string \<rightharpoonup> real) \<Rightarrow> real \<Rightarrow> real list \<Rightarrow> nat \<Rightarrow> bool" where
  "arb_buy_ok cfg timeline hourly_usage current_battery_wh curr_prof t_b =
     (let item_b = timeline ! t_b;
          curr_h = dict_get hourly_usage (hour item_b) 0;
          start_soc_b = (if t_b = 0 then current_battery_wh else curr_prof ! (t_b - 1))
      in \<not> PREVIOUS_PEAK_WH cfg - curr_h < 50 \<and> \<not> start_soc_b \<ge> BATTERY_ENERGY_WH cfg - 1)"

definition arb_profit :: "config \<Rightarrow> timeline \<Rightarrow> nat \<Rightarrow> nat \<Rightarrow> real" where
  "arb_profit cfg timeline t_b t_s =
     (let buy_c = price (timeline ! t_b) + TOTAL_ADDITIONAL_FEES cfg;
          sell_r = price (timeline ! t_s)
      in sell_r - buy_c - BATTERY_CYCLE_COST_ORE cfg)"

definition arb_pair_ok :: "config \<Rightarrow> timeline \<Rightarrow> real list \<Rightarrow> nat \<Rightarrow> nat \<Rightarrow> bool" where
  "arb_pair_ok cfg timeline curr_prof t_b t_s =
     (let item_s = timeline ! t_s;
          profit = arb_profit cfg timeline t_b t_s;
          act_s = grid_wh item_s + BIAS_WH_PER_QUARTER cfg;
          dis_s = base_net_load_wh item_s - act_s;
          start_soc_s = curr_prof ! (t_s - 1)
      in \<not> t_b \<ge> t_s
         \<and> \<not> profit < MIN_PRICE_DIFF_ORE_FOR_SELLING cfg
         \<and> \<not> dis_s + 50 > MAX_BATTERY_OUTPUT_PER_QUARTER_WH cfg
         \<and> \<not> (start_soc_s < LOW_SOC_THROTTLE_WH cfg
               \<and> dis_s + 50 > LOW_SOC_MAX_OUTPUT_PER_QUARTER_WH cfg)
         \<and> list_all (\<lambda>k. \<not> curr_prof ! k + 50 > BATTERY_ENERGY_WH cfg) [t_b..<t_s])"

text \<open>
  The inner loop. Its last statement is \<^verbatim>\<open>if profit > max_prof: max_prof = prof; best_arb = (t_b, t_s)\<close>:
  \<open>prof\<close> is no local variable of the function and no global name of the module, so
  reading it raises \<open>NameError\<close> before \<open>best_arb\<close> is assigned.
\<close>

fun arb_scan_inner ::
    "config \<Rightarrow> timeline \<Rightarrow> real list \<Rightarrow> nat \<Rightarrow> (nat \<times> nat) option \<times> real \<Rightarrow> nat list
     \<Rightarrow> py_error + ((nat \<times> nat) option \<times> real)" where
  "arb_scan_inner cfg timeline curr_prof t_b acc [] = Inr acc"
| "arb_scan_inner cfg timeline curr_prof t_b acc (t_s # ss) =
     (case acc of (best_arb, max_prof) \<Rightarrow>
        (if arb_pair_ok cfg timeline curr_prof t_b t_s
            \<and> arb_profit cfg timeline t_b t_s > max_prof
         then Inl NameError
         else arb_scan_inner cfg timeline curr_prof t_b (best_arb, max_prof) ss))"

fun arb_scan_outer ::
    "config \<Rightarrow> timeline \<Rightarrow> (string \<rightharpoonup> real) \<Rightarrow> real \<Rightarrow> real list
     \<Rightarrow> (nat \<times> nat) option \<times> real \<Rightarrow> nat list \<Rightarrow> py_error + ((nat \<times> nat) option \<times> real)" where
  "arb_scan_outer cfg timeline hourly_usage current_battery_wh curr_prof acc [] = Inr acc"
| "arb_scan_outer cfg timeline hourly_usage current_battery_wh curr_prof acc (t_b # bs) =
     (if arb_buy_ok cfg timeline hourly_usage current_battery_wh curr_prof t_b then
        (case arb_scan_inner cfg timeline curr_prof t_b acc [0..<length timeline] of
           Inl e \<Rightarrow> Inl e
         | Inr acc' \<Rightarrow>
             arb_scan_outer cfg timeline hourly_usage current_battery_wh curr_prof acc' bs)
      else arb_scan_outer cfg timeline hourly_usage current_battery_wh curr_prof acc bs)"

definition find_best_arb ::
    "config \<Rightarrow> timeline \<Rightarrow> (string \<rightharpoonup> real) \<Rightarrow> real \<Rightarrow> py_error + (nat \<times> nat) option" where
  "find_best_arb cfg timeline hourly_usage current_battery_wh =
     (case calculate_battery_profile_from_list cfg current_battery_wh (map grid_wh timeline) timeline of
        Inl e \<Rightarrow> Inl e
      | Inr curr_prof \<Rightarrow>
          (case arb_scan_outer cfg timeline hourly_usage current_battery_wh curr_prof
                  (None, 0) [0..<length timeline] of
             Inl e \<Rightarrow> Inl e
           | Inr (best_arb, max_prof) \<Rightarrow> Inr best_arb))"

function phase_4_loop ::
    "config \<Rightarrow> real \<Rightarrow> nat \<Rightarrow> timeline \<times> (string \<rightharpoonup> real) \<Rightarrow> py_error + (timeline \<times> nat)" where
  "phase_4_loop cfg current_battery_wh arb_iter st =
     (case st of (timeline, hourly_usage) \<Rightarrow>
        (if arb_iter < 500 then
           (case find_best_arb cfg timeline hourly_usage current_battery_wh of
              Inl e \<Rightarrow> Inl e
            | Inr None \<Rightarrow> Inr (timeline, arb_iter + 1)
            | Inr (Some (b, s)) \<Rightarrow>
                (let timeline' = sub_grid (add_grid timeline b 50) s 50
                 in case dict_add hourly_usage (hour (timeline' ! b)) 50 of
                      Inl e \<Rightarrow> Inl e
                    | Inr hourly_usage' \<Rightarrow>
                        phase_4_loop cfg current_battery_wh (arb_iter + 1)
                          (timeline', hourly_usage')))
         else Inr (timeline, arb_iter)))"
  by pat_completeness auto
termination
  by (relation "measure (\<lambda>(cfg, current_battery_wh, arb_iter, st). 500 - arb_iter)") auto

definition phase_4_active_arbitrage :: "config \<Rightarrow> timeline \<Rightarrow> real \<Rightarrow> real \<Rightarrow> py_error + timeline" where
  "phase_4_active_arbitrage cfg timeline current_battery_wh base_price =
     (case phase_4_loop cfg current_battery_wh 0 (timeline, get_hourly_usage_map cfg timeline) of
        Inl e \<Rightarrow> Inl e
      | Inr (timeline', arb_iter) \<Rightarrow> Inr timeline')"

section \<open>Controller\<close>

text \<open>
  One entry of the history that \<^verbatim>\<open>run_optimizer\<close> returns to the animator. The titles are
  plain labels (the source writes two of them with Swedish letters).
\<close>

record snapshot =
  title :: string
  snap_timeline :: timeline
  battery_wh :: real
  peak_limit :: real

text \<open>What \<^verbatim>\<open>run_optimizer\<close> returns: the history, the timeline, or \<open>None\<close>.\<close>

datatype run_result = History "snapshot list" | Plan timeline | PyNone

definition save_snapshot ::
    "config \<Rightarrow> bool \<Rightarrow> timeline \<Rightarrow> real \<Rightarrow> snapshot list \<Rightarrow> string \<Rightarrow> py_error + snapshot list" where
  "save_snapshot cfg return_history timeline current_battery_wh history name =
     (if return_history then
        (case calculate_battery_profile_from_list cfg current_battery_wh
                (map grid_wh timeline) timeline of
           Inl e \<Rightarrow> Inl e
         | Inr prof \<Rightarrow>
             Inr (history @
                  [\<lparr>title = name,
                    snap_timeline = map (\<lambda>(x, b). x\<lparr>batt_wh := b\<rparr>) (zip timeline prof),
                    battery_wh = current_battery_wh,
                    peak_limit = PREVIOUS_PEAK_WH cfg\<rparr>]))
      else Inr history)"

text \<open>
  Of \<^verbatim>\<open>generate_reports\<close> only the effect on the timeline is kept (the final profile is
  written into \<open>batt_wh\<close>); the tables it prints and the list it returns are not used by
  the controller.
\<close>

definition generate_reports :: "config \<Rightarrow> timeline \<Rightarrow> real \<Rightarrow> py_error + timeline" where
  "generate_reports cfg timeline current_battery_wh =
     (case calculate_battery_profile_from_list cfg current_battery_wh (map grid_wh timeline) timeline of
        Inl e \<Rightarrow> Inl e
      | Inr final_soc_profile \<Rightarrow>
          Inr (map (\<lambda>(item, b). item\<lparr>batt_wh := b\<rparr>) (zip timeline final_soc_profile)))"

text \<open>Phases 3 and 4 with their snapshot, run only when arbitrage is enabled.\<close>

definition run_arbitrage ::
    "config \<Rightarrow> bool \<Rightarrow> timeline \<Rightarrow> real \<Rightarrow> real \<Rightarrow> real \<Rightarrow> bool \<Rightarrow> snapshot list
     \<Rightarrow> py_error + (timeline \<times> snapshot list)" where
  "run_arbitrage cfg return_history timeline current_battery_wh base_price optimal_limit
       warning_flag history =
     (if ENABLE_ARBITRAGE cfg then
        (let monthly_peak_wh = PREVIOUS_PEAK_WH cfg / 4;
             swap_ceiling_wh = (if \<not> warning_flag then monthly_peak_wh else optimal_limit)
         in bind_err (phase_3_price_optimization cfg timeline current_battery_wh swap_ceiling_wh)
              (\<lambda>timeline.
            bind_err (phase_4_active_arbitrage cfg timeline current_battery_wh base_price)
              (\<lambda>timeline.
            bind_err (save_snapshot cfg return_history timeline current_battery_wh history
                        ''Fas 3 & 4: Arbitrage & Swap'')
              (\<lambda>history. Inr (timeline, history)))))
      else Inr (timeline, history))"

text \<open>
  \<^verbatim>\<open>run_optimizer\<close>. The result of \<^verbatim>\<open>setup_timeline\<close>, which fetches the prices, is an
  argument: \<open>None\<close> stands for the triple \<^verbatim>\<open>(None, None, None)\<close> that it returns when no
  prices are available. \<^verbatim>\<open>run_sanity_check\<close> only prints and is left out.
\<close>

definition run_optimizer ::
    "config \<Rightarrow> (timeline \<times> real \<times> real) option \<Rightarrow> bool \<Rightarrow> py_error + run_result" where
  "run_optimizer cfg setup return_history =
     (case setup of
        None \<Rightarrow> Inr (if return_history then History [] else PyNone)
      | Some (timeline, current_battery_wh, base_price) \<Rightarrow>
          (if timeline = [] then Inr (if return_history then History [] else PyNone)
           else
             (let history = [];
                  idle = map (\<lambda>x. x\<lparr>grid_wh := base_net_load_wh x - BIAS_WH_PER_QUARTER cfg\<rparr>) timeline
              in bind_err (save_snapshot cfg return_history idle current_battery_wh history
                             ''Fas 0: Utgangslage (Ingen batteridrift)'')
                   (\<lambda>history.
                 case phase_1_peak_shaving cfg timeline current_battery_wh of
                   (timeline, optimal_limit, warning_flag) \<Rightarrow>
                 bind_err (save_snapshot cfg return_history timeline current_battery_wh history
                             ''Fas 1: Peak Shaving (Platt Kurva)'')
                   (\<lambda>history.
                 bind_err (phase_2_safety_checks cfg timeline current_battery_wh)
                   (\<lambda>timeline.
                 bind_err (save_snapshot cfg return_history timeline current_battery_wh history
                             ''Fas 2: Sakerhetskontroll (15% Reserv)'')
                   (\<lambda>history.
                 bind_err (phase_smart_fill_cheap_hours cfg timeline current_battery_wh
                             (PREVIOUS_PEAK_WH cfg))
                   (\<lambda>timeline.
                 bind_err (save_snapshot cfg return_history timeline current_battery_wh history
                             ''Fas 2.9: Smart Fill (Billiga Timmar)'')
                   (\<lambda>history.
                 bind_err (phase_optimize_within_hours cfg timeline current_battery_wh)
                   (\<lambda>timeline.
                 bind_err (save_snapshot cfg return_history timeline current_battery_wh history
                             ''Fas 2.5: Intra-Hour (Kvart-optimering)'')
                   (\<lambda>history.
                 bind_err (run_arbitrage cfg return_history timeline current_battery_wh base_price
                             optimal_limit warning_flag history)
                   (\<lambda>(timeline, history).
                 if \<not> return_history then
                   bind_err (generate_reports cfg timeline current_battery_wh)
                     (\<lambda>timeline. Inr (Plan timeline))
                 else
                   bind_err (save_snapshot cfg return_history timeline current_battery_wh history
                               ''Slutresultat'')
                     (\<lambda>history. Inr (History history))))))))))))))"

section \<open>Concrete inputs\<close>

text \<open>A slot with the given index, labels, price, net load and grid command.\<close>

definition mk_slot :: "nat \<Rightarrow> string \<Rightarrow> string \<Rightarrow> real \<Rightarrow> real \<Rightarrow> real \<Rightarrow> slot" where
  "mk_slot i t h p load g =
     \<lparr>index = i, time = t, hour = h, price = p, cons_wh = load, solar_wh = 0,
      grid_wh = g, batt_wh = 0, base_net_load_wh = load\<rparr>"

text \<open>
  A 1000 Wh battery with a 100 Wh reserve, a throttle of 300 Wh per quarter below 200 Wh,
  no bias, a manual import limit of 0 and a previous peak of 4000 Wh.
\<close>

definition demo_cfg :: config where
  "demo_cfg =
     \<lparr>BATTERY_ENERGY_WH = 1000, MAX_BATTERY_OUTPUT_PER_QUARTER_WH = 1000,
      LOW_SOC_THROTTLE_WH = 200, LOW_SOC_MAX_OUTPUT_PER_QUARTER_WH = 300,
      BIAS_WH_PER_QUARTER = 0, MIN_BATTERY_BUFFER_WH = 100,
      TRY_KEEP_HOURS_BELOW_WH = Some 0, PREVIOUS_PEAK_WH = 4000,
      ENABLE_ARBITRAGE = True, MIN_PRICE_DIFF_ORE_FOR_SELLING = 10,
      BATTERY_CYCLE_COST_ORE = 5, TOTAL_ADDITIONAL_FEES = 100\<rparr>"

definition drain_timeline :: timeline where
  "drain_timeline =
     [mk_slot 0 ''10:00'' ''10'' 10 50 0, mk_slot 1 ''10:15'' ''10'' 50 50 (-20)]"

definition fill_timeline :: timeline where
  "fill_timeline =
     [mk_slot 0 ''10:00'' ''10'' 10 300 100, mk_slot 1 ''10:15'' ''10'' 50 300 100]"

definition arb_timeline :: timeline where
  "arb_timeline =
     [mk_slot 0 ''10:00'' ''10'' 10 100 100, mk_slot 1 ''10:15'' ''10'' 200 100 100]"

text \<open>
  A timeline whose second slot draws the battery down to the reserve, as it comes in, after
  peak shaving, and after the one swap that the price optimization makes on it.
\<close>

definition reserve_timeline :: timeline where
  "reserve_timeline =
     [mk_slot 0 ''10:00'' ''10'' 10 (1/2) 0, mk_slot 1 ''10:15'' ''10'' 50 (1779/2) 0]"

definition reserve_shaved :: timeline where
  "reserve_shaved =
     [(mk_slot 0 ''10:00'' ''10'' 10 (1/2) 0)\<lparr>batt_wh := 1979/2\<rparr>,
      (mk_slot 1 ''10:15'' ''10'' 50 (1779/2) 0)\<lparr>batt_wh := 100\<rparr>]"

definition reserve_swapped :: timeline where
  "reserve_swapped =
     [(mk_slot 0 ''10:00'' ''10'' 10 (1/2) 50)\<lparr>batt_wh := 1979/2\<rparr>,
      (mk_slot 1 ''10:15'' ''10'' 50 (1779/2) (-50))\<lparr>batt_wh := 100\<rparr>]"

definition even_timeline :: timeline where
  "even_timeline =
     [mk_slot 0 ''10:00'' ''10'' 10 100 0, mk_slot 1 ''10:15'' ''10'' 15 100 0]"


definition rate_timeline :: timeline where
  "rate_timeline =
     [mk_slot 0 ''10:00'' ''10'' 50 1200 600, mk_slot 1 ''10:15'' ''10'' 10 1200 600]"

definition big_cfg :: config where
  "big_cfg = demo_cfg\<lparr>BATTERY_ENERGY_WH := 5000\<rparr>"



section \<open>Properties\<close>

subsection \<open>The simulator\<close>

lemma battery_profile_loop_Cons:
  "i < length timeline \<Longrightarrow>
   battery_profile_loop cfg cur i (g # gs) timeline =
     (case battery_profile_loop cfg
            (min (BATTERY_ENERGY_WH cfg)
               (cur + (g + BIAS_WH_PER_QUARTER cfg - base_net_load_wh (timeline ! i))))
            (Suc i) gs timeline of
        Inl e \<Rightarrow> Inl e
      | Inr profile \<Rightarrow>
          Inr (min (BATTERY_ENERGY_WH cfg)
                 (cur + (g + BIAS_WH_PER_QUARTER cfg - base_net_load_wh (timeline ! i))) # profile))"
  by (simp add: Let_def min_def split: sum.splits)

lemma battery_profile_loop_ok:
  "i + length gs \<le> length timeline \<Longrightarrow>
   \<exists>profile. battery_profile_loop cfg cur i gs timeline = Inr profile \<and>
     length profile = length gs \<and>
     (\<forall>j<length gs. profile ! j =
        min (BATTERY_ENERGY_WH cfg)
          ((if j = 0 then cur else profile ! (j - 1)) + (gs ! j + BIAS_WH_PER_QUARTER cfg)
             - base_net_load_wh (timeline ! (i + j))))"
proof (induction gs arbitrary: cur i)
  case Nil
  then show ?case by simp
next
  case (Cons g gs)
  define c where "c = min (BATTERY_ENERGY_WH cfg)
               (cur + (g + BIAS_WH_PER_QUARTER cfg - base_net_load_wh (timeline ! i)))"
  from Cons.prems have i: "i < length timeline" and rest: "Suc i + length gs \<le> length timeline"
    by simp_all
  from Cons.IH [OF rest, of c] obtain p where
    p: "battery_profile_loop cfg c (Suc i) gs timeline = Inr p"
    and len: "length p = length gs"
    and rec: "\<And>j. j < length gs \<Longrightarrow> p ! j =
        min (BATTERY_ENERGY_WH cfg)
          ((if j = 0 then c else p ! (j - 1)) + (gs ! j + BIAS_WH_PER_QUARTER cfg)
             - base_net_load_wh (timeline ! (Suc i + j)))"
    by blast
  have run: "battery_profile_loop cfg cur i (g # gs) timeline = Inr (c # p)"
    unfolding battery_profile_loop_Cons [OF i] c_def [symmetric] p by simp
  have step: "(c # p) ! j =
        min (BATTERY_ENERGY_WH cfg)
          ((if j = 0 then cur else (c # p) ! (j - 1)) + ((g # gs) ! j + BIAS_WH_PER_QUARTER cfg)
             - base_net_load_wh (timeline ! (i + j)))" if j: "j < length (g # gs)" for j
  proof (cases j)
    case 0
    then show ?thesis by (simp add: c_def add_diff_eq)
  next
    case (Suc k)
    with j have k: "k < length gs" by simp
    show ?thesis using rec [OF k] Suc by (cases k) simp_all
  qed
  show ?case
  proof (intro exI conjI allI impI)
    show "battery_profile_loop cfg cur i (g # gs) timeline = Inr (c # p)" by (rule run)
    show "length (c # p) = length (g # gs)" using len by simp
    fix j assume "j < length (g # gs)"
    then show "(c # p) ! j =
        min (BATTERY_ENERGY_WH cfg)
          ((if j = 0 then cur else (c # p) ! (j - 1)) + ((g # gs) ! j + BIAS_WH_PER_QUARTER cfg)
             - base_net_load_wh (timeline ! (i + j)))" by (rule step)
  qed
qed

text \<open>
  C1. Whenever the timeline has a slot for every grid command, the simulator returns a
  profile of the same length with
  \<open>profile[i] = min(capacity, profile[i-1] + (grid_cmds[i] + bias) - base_net_load[i])\<close>,
  where \<open>profile[-1]\<close> is the starting charge. The minimum with the capacity is the only
  clamp, so nothing keeps a value from being negative.
\<close>

theorem C1_profile_recurrence:
  assumes "length grid_cmds \<le> length timeline"
  shows "\<exists>profile.
     calculate_battery_profile_from_list cfg soc_start grid_cmds timeline = Inr profile \<and>
     length profile = length grid_cmds \<and>
     (\<forall>i<length grid_cmds. profile ! i =
        min (BATTERY_ENERGY_WH cfg)
          ((if i = 0 then soc_start else profile ! (i - 1))
             + (grid_cmds ! i + BIAS_WH_PER_QUARTER cfg)
             - base_net_load_wh (timeline ! i)))"
  using battery_profile_loop_ok [of 0 grid_cmds timeline cfg soc_start] assms
  by (simp add: calculate_battery_profile_from_list_def)

theorem C1_profile_recurrence_witness:
  "length [0, -20 :: real] \<le> length drain_timeline \<and>
   calculate_battery_profile_from_list demo_cfg 10 [0, -20] drain_timeline = Inr [-40, -110] \<and>
   (\<exists>profile.
      calculate_battery_profile_from_list demo_cfg 10 [0, -20] drain_timeline = Inr profile \<and>
      length profile = length [0, -20 :: real] \<and>
      (\<forall>i<length [0, -20 :: real]. profile ! i =
         min (BATTERY_ENERGY_WH demo_cfg)
           ((if i = 0 then 10 else profile ! (i - 1))
              + ([0, -20] ! i + BIAS_WH_PER_QUARTER demo_cfg)
              - base_net_load_wh (drain_timeline ! i))))"
proof -
  have len: "length [0, -20 :: real] \<le> length drain_timeline"
    by (simp add: drain_timeline_def)
  have val: "calculate_battery_profile_from_list demo_cfg 10 [0, -20] drain_timeline = Inr [-40, -110]"
    by (simp add: calculate_battery_profile_from_list_def drain_timeline_def demo_cfg_def
        mk_slot_def)
  from len val C1_profile_recurrence [OF len, of demo_cfg 10] show ?thesis
    by blast
qed

lemma battery_profile_loop_bounded:
  "i + length gs \<le> length timeline \<Longrightarrow>
   \<exists>profile. battery_profile_loop cfg cur i gs timeline = Inr profile \<and>
     length profile = length gs \<and> (\<forall>x\<in>set profile. x \<le> BATTERY_ENERGY_WH cfg)"
proof (induction gs arbitrary: cur i)
  case Nil
  then show ?case by simp
next
  case (Cons g gs)
  from Cons.prems have i: "i < length timeline" and rest: "Suc i + length gs \<le> length timeline"
    by simp_all
  show ?case
    using Cons.IH [OF rest] unfolding battery_profile_loop_Cons [OF i]
    by (metis length_Cons min.cobounded1 old.sum.simps(6) set_ConsD)
qed

lemma profile_of_timeline:
  "\<exists>profile. calculate_battery_profile_from_list cfg soc (map grid_wh timeline) timeline = Inr profile \<and>
     length profile = length timeline \<and> (\<forall>x\<in>set profile. x \<le> BATTERY_ENERGY_WH cfg)"
  using battery_profile_loop_bounded [of 0 "map grid_wh timeline" timeline cfg soc]
  by (simp add: calculate_battery_profile_from_list_def)

lemma fold_max_le: "fold max xs (x::real) \<le> c \<longleftrightarrow> x \<le> c \<and> (\<forall>y\<in>set xs. y \<le> c)"
  by (induction xs arbitrary: x) auto

lemma max_nonempty_le: "xs \<noteq> [] \<Longrightarrow> max_nonempty xs \<le> c \<longleftrightarrow> (\<forall>y\<in>set xs. y \<le> c)"
  by (cases xs) (auto simp: max_nonempty_def fold_max_le)

lemma check_capacity_True:
  "timeline \<noteq> [] \<Longrightarrow> check_capacity cfg timeline soc = Inr True"
proof -
  assume ne: "timeline \<noteq> []"
  obtain p where p: "calculate_battery_profile_from_list cfg soc (map grid_wh timeline) timeline = Inr p"
    and len: "length p = length timeline" and le: "\<forall>x\<in>set p. x \<le> BATTERY_ENERGY_WH cfg"
    using profile_of_timeline by blast
  from ne len have "p \<noteq> []" by auto
  then show ?thesis using p le by (simp add: check_capacity_def max_nonempty_le)
qed

subsection \<open>The cheap-hour fill and its capacity test\<close>

lemma length_add_grid [simp]: "length (add_grid timeline i v) = length timeline"
  by (simp add: add_grid_def)

lemma length_sub_grid [simp]: "length (sub_grid timeline i v) = length timeline"
  by (simp add: sub_grid_def)

lemma length_set_grid [simp]: "length (set_grid timeline i v) = length timeline"
  by (simp add: set_grid_def)

lemma smart_fill_step_eq_kept:
  assumes "i < length timeline"
  shows "smart_fill_step cfg soc limit_wh (timeline, hourly_usage) i
       = smart_fill_step_kept cfg limit_wh (timeline, hourly_usage) i"
proof -
  have ne: "add_grid timeline i v \<noteq> []" for v
    using assms by (metis length_add_grid list.size(3) not_less_zero)
  show ?thesis
    by (simp add: smart_fill_step_def smart_fill_step_kept_def Let_def check_capacity_True [OF ne]
        split: sum.splits)
qed

lemma smart_fill_step_kept_length:
  "smart_fill_step_kept cfg limit_wh st i = Inr st' \<Longrightarrow> length (fst st') = length (fst st)"
  by (cases st) (auto simp: smart_fill_step_kept_def Let_def split: if_splits sum.splits)

lemma smart_fill_loop_eq_kept:
  "\<forall>i\<in>set js. i < length (fst st) \<Longrightarrow>
   smart_fill_loop cfg soc limit_wh st js = smart_fill_loop_kept cfg limit_wh st js"
proof (induction js arbitrary: st)
  case Nil
  then show ?case by simp
next
  case (Cons i js)
  obtain timeline hourly_usage where st: "st = (timeline, hourly_usage)" by (cases st)
  from Cons.prems st have i: "i < length timeline" by simp
  have step: "smart_fill_step cfg soc limit_wh st i = smart_fill_step_kept cfg limit_wh st i"
    unfolding st by (rule smart_fill_step_eq_kept [OF i])
  show ?case
  proof (cases "smart_fill_step_kept cfg limit_wh st i")
    case (Inl e)
    then show ?thesis using step by simp
  next
    case (Inr st')
    from smart_fill_step_kept_length [OF Inr] Cons.prems
    have "\<forall>i\<in>set js. i < length (fst st')" by simp
    from Cons.IH [OF this] show ?thesis using step Inr by simp
  qed
qed

lemma cheap_candidates_bound: "i \<in> set (cheap_candidates timeline) \<Longrightarrow> i < length timeline"
  by (simp add: cheap_candidates_def)

text \<open>
  C9. The capacity test of the cheap-hour fill cannot fail: on a timeline that is not
  empty \<open>check_capacity\<close> is true, since the simulator clamps every value at the capacity.
  So the rollback branch is never taken: every round of the loop, and the whole phase,
  equals the one in which each applied increase is kept.
\<close>

theorem C9_capacity_check_always_passes:
  "(timeline \<noteq> [] \<longrightarrow> check_capacity cfg timeline current_battery_wh = Inr True) \<and>
   (i < length timeline \<longrightarrow>
      smart_fill_step cfg current_battery_wh limit_wh (timeline, hourly_usage) i
        = smart_fill_step_kept cfg limit_wh (timeline, hourly_usage) i) \<and>
   phase_smart_fill_cheap_hours cfg timeline current_battery_wh limit_wh
     = (case smart_fill_loop_kept cfg limit_wh (timeline, get_hourly_usage_map cfg timeline)
               (cheap_candidates timeline) of
          Inl e \<Rightarrow> Inl e
        | Inr (timeline', hourly_usage') \<Rightarrow> Inr timeline')"
proof (intro conjI impI)
  show "check_capacity cfg timeline current_battery_wh = Inr True" if "timeline \<noteq> []"
    using that by (rule check_capacity_True)
  show "smart_fill_step cfg current_battery_wh limit_wh (timeline, hourly_usage) i
        = smart_fill_step_kept cfg limit_wh (timeline, hourly_usage) i" if "i < length timeline"
    using that by (rule smart_fill_step_eq_kept)
  have "smart_fill_loop cfg current_battery_wh limit_wh
          (timeline, get_hourly_usage_map cfg timeline) (cheap_candidates timeline)
        = smart_fill_loop_kept cfg limit_wh
          (timeline, get_hourly_usage_map cfg timeline) (cheap_candidates timeline)"
    by (rule smart_fill_loop_eq_kept) (simp add: cheap_candidates_bound)
  then show "phase_smart_fill_cheap_hours cfg timeline current_battery_wh limit_wh
     = (case smart_fill_loop_kept cfg limit_wh (timeline, get_hourly_usage_map cfg timeline)
               (cheap_candidates timeline) of
          Inl e \<Rightarrow> Inl e
        | Inr (timeline', hourly_usage') \<Rightarrow> Inr timeline')"
    by (simp add: phase_smart_fill_cheap_hours_def)
qed

theorem C9_capacity_check_always_passes_witness:
  "fill_timeline \<noteq> [] \<and> check_capacity demo_cfg fill_timeline 500 = Inr True \<and>
   phase_smart_fill_cheap_hours demo_cfg fill_timeline 500 4000 = Inr (add_grid fill_timeline 0 200)"
proof -
  have ne: "fill_timeline \<noteq> []" by (simp add: fill_timeline_def)
  have val: "phase_smart_fill_cheap_hours demo_cfg fill_timeline 500 4000
               = Inr (add_grid fill_timeline 0 200)"
    by code_simp
  from C9_capacity_check_always_passes [of fill_timeline demo_cfg 500 0 4000 Map.empty] ne
  have "check_capacity demo_cfg fill_timeline 500 = Inr True" by blast
  with ne val show ?thesis by simp
qed

subsection \<open>Active arbitrage\<close>

lemma arb_scan_inner_raises:
  "t_s \<in> set ss \<Longrightarrow> arb_pair_ok cfg timeline curr_prof t_b t_s \<Longrightarrow>
   arb_profit cfg timeline t_b t_s > max_prof \<Longrightarrow>
   arb_scan_inner cfg timeline curr_prof t_b (best_arb, max_prof) ss = Inl NameError"
  by (induction ss) auto

lemma arb_scan_inner_keeps:
  "arb_scan_inner cfg timeline curr_prof t_b acc ss = Inr acc' \<Longrightarrow> acc' = acc"
  by (induction ss) (auto split: prod.splits if_splits)

lemma arb_scan_inner_error:
  "arb_scan_inner cfg timeline curr_prof t_b acc ss = Inl e \<Longrightarrow> e = NameError"
  by (induction ss) (auto split: prod.splits if_splits)

lemma arb_scan_outer_raises:
  "t_b \<in> set bs \<Longrightarrow> t_s < length timeline \<Longrightarrow>
   arb_buy_ok cfg timeline hourly_usage soc curr_prof t_b \<Longrightarrow>
   arb_pair_ok cfg timeline curr_prof t_b t_s \<Longrightarrow>
   arb_profit cfg timeline t_b t_s > max_prof \<Longrightarrow>
   arb_scan_outer cfg timeline hourly_usage soc curr_prof (best_arb, max_prof) bs = Inl NameError"
proof (induction bs)
  case Nil
  then show ?case by simp
next
  case (Cons b bs)
  show ?case
  proof (cases "b = t_b")
    case True
    have "arb_scan_inner cfg timeline curr_prof t_b (best_arb, max_prof) [0..<length timeline]
            = Inl NameError"
      by (rule arb_scan_inner_raises [of t_s]) (use Cons.prems in simp_all)
    with True Cons.prems show ?thesis by simp
  next
    case False
    with Cons.prems have tb: "t_b \<in> set bs" by simp
    note IH = Cons.IH [OF tb Cons.prems(2-5)]
    show ?thesis
    proof (cases "arb_buy_ok cfg timeline hourly_usage soc curr_prof b")
      case False
      with IH show ?thesis by simp
    next
      case True
      show ?thesis
      proof (cases "arb_scan_inner cfg timeline curr_prof b (best_arb, max_prof) [0..<length timeline]")
        case (Inl e)
        with arb_scan_inner_error [OF Inl] True show ?thesis by simp
      next
        case (Inr acc')
        with arb_scan_inner_keeps [OF Inr] True IH show ?thesis by simp
      qed
    qed
  qed
qed

text \<open>
  C3. The claim fails on the code: whenever a buying slot and a selling slot pass every
  check of \<^verbatim>\<open>phase_4_active_arbitrage\<close> and the profit of the pair is positive, the
  phase raises \<open>NameError\<close> instead of shifting 50 Wh.
\<close>

theorem C3_phase_4_raises_NameError:
  assumes "calculate_battery_profile_from_list cfg current_battery_wh (map grid_wh timeline) timeline
             = Inr curr_prof"
    and "t_b < length timeline" and "t_s < length timeline"
    and "arb_buy_ok cfg timeline (get_hourly_usage_map cfg timeline) current_battery_wh curr_prof t_b"
    and "arb_pair_ok cfg timeline curr_prof t_b t_s"
    and "arb_profit cfg timeline t_b t_s > 0"
  shows "phase_4_active_arbitrage cfg timeline current_battery_wh base_price = Inl NameError"
proof -
  have "arb_scan_outer cfg timeline (get_hourly_usage_map cfg timeline) current_battery_wh curr_prof
          (None, 0) [0..<length timeline] = Inl NameError"
    by (rule arb_scan_outer_raises [of t_b _ t_s]) (use assms in simp_all)
  with assms(1) have "find_best_arb cfg timeline (get_hourly_usage_map cfg timeline)
      current_battery_wh = Inl NameError"
    by (simp add: find_best_arb_def)
  then show ?thesis
    by (simp add: phase_4_active_arbitrage_def)
qed

theorem C3_phase_4_raises_NameError_witness:
  "calculate_battery_profile_from_list demo_cfg 500 (map grid_wh arb_timeline) arb_timeline
     = Inr [500, 500] \<and>
   (0::nat) < length arb_timeline \<and> (1::nat) < length arb_timeline \<and>
   arb_buy_ok demo_cfg arb_timeline (get_hourly_usage_map demo_cfg arb_timeline) 500 [500, 500] 0 \<and>
   arb_pair_ok demo_cfg arb_timeline [500, 500] 0 1 \<and>
   arb_profit demo_cfg arb_timeline 0 1 = 85 \<and>
   MIN_PRICE_DIFF_ORE_FOR_SELLING demo_cfg = 10 \<and>
   phase_4_active_arbitrage demo_cfg arb_timeline 500 0 = Inl NameError"
proof -
  have a: "calculate_battery_profile_from_list demo_cfg 500 (map grid_wh arb_timeline) arb_timeline
     = Inr [500, 500]" by code_simp
  have b: "(0::nat) < length arb_timeline" "(1::nat) < length arb_timeline"
    by (simp_all add: arb_timeline_def)
  have c: "arb_buy_ok demo_cfg arb_timeline (get_hourly_usage_map demo_cfg arb_timeline) 500 [500, 500] 0"
    by code_simp
  have d: "arb_pair_ok demo_cfg arb_timeline [500, 500] 0 1" by code_simp
  have e: "arb_profit demo_cfg arb_timeline 0 1 = 85" by code_simp
  have f: "MIN_PRICE_DIFF_ORE_FOR_SELLING demo_cfg = 10" by (simp add: demo_cfg_def)
  have "arb_profit demo_cfg arb_timeline 0 1 > 0" using e by simp
  from C3_phase_4_raises_NameError [OF a b c d this] a b c d e f show ?thesis by simp
qed

subsection \<open>The controller\<close>

text \<open>
  C10. When \<^verbatim>\<open>setup_timeline\<close> has no prices, or gives a timeline without slots,
  \<^verbatim>\<open>run_optimizer\<close> returns at once: an empty history when the history is asked for
  and \<open>None\<close> otherwise, whatever the configuration, and never an exception.
\<close>

theorem C10_empty_input:
  "run_optimizer cfg None return_history = Inr (if return_history then History [] else PyNone) \<and>
   run_optimizer cfg (Some ([], current_battery_wh, base_price)) return_history
     = Inr (if return_history then History [] else PyNone)"
  by (simp add: run_optimizer_def)

subsection \<open>The reserve after the arbitrage phases\<close>

text \<open>
  C2. The claim fails on the code. With a reserve of 100 Wh and a start at 990 Wh, the
  replay after phases 1, 2, 2.9 and 2.5 ends at the reserve, 100 Wh. Phase 3 then moves
  50 Wh of import from the second slot to the first: its path test only asks for a profile
  below capacity minus 1 Wh, the charge of the first slot is cut at the capacity, and the
  replay of the result ends at 60.5 Wh, below the reserve. Phase 4 and the whole run leave
  it there.
\<close>

theorem C2_phase_3_breaks_reserve:
  "MIN_BATTERY_BUFFER_WH demo_cfg = 100 \<and>
   phase_1_peak_shaving demo_cfg reserve_timeline 990 = (reserve_shaved, 0, False) \<and>
   phase_2_safety_checks demo_cfg reserve_shaved 990 = Inr reserve_shaved \<and>
   phase_smart_fill_cheap_hours demo_cfg reserve_shaved 990 (PREVIOUS_PEAK_WH demo_cfg)
     = Inr reserve_shaved \<and>
   phase_optimize_within_hours demo_cfg reserve_shaved 990 = Inr reserve_shaved \<and>
   calculate_battery_profile_from_list demo_cfg 990 (map grid_wh reserve_shaved) reserve_shaved
     = Inr [1979 / 2, 100] \<and>
   phase_3_price_optimization demo_cfg reserve_shaved 990 (PREVIOUS_PEAK_WH demo_cfg / 4)
     = Inr reserve_swapped \<and>
   phase_4_active_arbitrage demo_cfg reserve_swapped 990 0 = Inr reserve_swapped \<and>
   calculate_battery_profile_from_list demo_cfg 990 (map grid_wh reserve_swapped) reserve_swapped
     = Inr [1000, 121 / 2] \<and>
   (121 / 2 :: real) < MIN_BATTERY_BUFFER_WH demo_cfg \<and>
   run_optimizer demo_cfg (Some (reserve_timeline, 990, 0)) False
     = Inr (Plan [(mk_slot 0 ''10:00'' ''10'' 10 (1/2) 50)\<lparr>batt_wh := 1000\<rparr>,
                  (mk_slot 1 ''10:15'' ''10'' 50 (1779/2) (-50))\<lparr>batt_wh := 121 / 2\<rparr>])"
proof (intro conjI)
  show "MIN_BATTERY_BUFFER_WH demo_cfg = 100" by (simp add: demo_cfg_def)
  show "phase_1_peak_shaving demo_cfg reserve_timeline 990 = (reserve_shaved, 0, False)"
    by code_simp
  show "phase_2_safety_checks demo_cfg reserve_shaved 990 = Inr reserve_shaved"
    by code_simp
  show "phase_smart_fill_cheap_hours demo_cfg reserve_shaved 990 (PREVIOUS_PEAK_WH demo_cfg)
     = Inr reserve_shaved" by code_simp
  show "phase_optimize_within_hours demo_cfg reserve_shaved 990 = Inr reserve_shaved"
    by code_simp
  show "calculate_battery_profile_from_list demo_cfg 990 (map grid_wh reserve_shaved) reserve_shaved
     = Inr [1979 / 2, 100]" by code_simp
  show "phase_3_price_optimization demo_cfg reserve_shaved 990 (PREVIOUS_PEAK_WH demo_cfg / 4)
     = Inr reserve_swapped" by code_simp
  show "phase_4_active_arbitrage demo_cfg reserve_swapped 990 0 = Inr reserve_swapped"
    by code_simp
  show "calculate_battery_profile_from_list demo_cfg 990 (map grid_wh reserve_swapped) reserve_swapped
     = Inr [1000, 121 / 2]" by code_simp
  show "(121 / 2 :: real) < MIN_BATTERY_BUFFER_WH demo_cfg" by (simp add: demo_cfg_def)
  show "run_optimizer demo_cfg (Some (reserve_timeline, 990, 0)) False
     = Inr (Plan [(mk_slot 0 ''10:00'' ''10'' 10 (1/2) 50)\<lparr>batt_wh := 1000\<rparr>,
                  (mk_slot 1 ''10:15'' ''10'' 50 (1779/2) (-50))\<lparr>batt_wh := 121 / 2\<rparr>])"
    by code_simp
qed

subsection \<open>The price optimization\<close>

lemma swap_scan_inner_spec:
  "swap_scan_inner cfg timeline soc prof c (b, m) es = (b', m') \<Longrightarrow>
     m \<le> m' \<and>
     (\<forall>e\<in>set es. swap_pair_ok cfg timeline soc prof c e \<longrightarrow>
        price (timeline ! e) - price (timeline ! c) \<le> m') \<and>
     ((b', m') = (b, m) \<or>
      (\<exists>e\<in>set es. b' = Some (c, e) \<and> swap_pair_ok cfg timeline soc prof c e \<and>
         m' = price (timeline ! e) - price (timeline ! c) \<and> m < m'))"
proof (induction es arbitrary: b m)
  case Nil
  then show ?case by simp
next
  case (Cons e es)
  let ?p = "price (timeline ! e) - price (timeline ! c)"
  let ?take = "swap_pair_ok cfg timeline soc prof c e \<and> ?p > m"
  show ?case
  proof (cases ?take)
    case True
    with Cons.prems have "swap_scan_inner cfg timeline soc prof c (Some (c, e), ?p) es = (b', m')"
      by simp
    from Cons.IH [OF this] True show ?thesis by fastforce
  next
    case False
    with Cons.prems have "swap_scan_inner cfg timeline soc prof c (b, m) es = (b', m')"
      by auto
    from Cons.IH [OF this] False show ?thesis by fastforce
  qed
qed

lemma swap_scan_outer_spec:
  "swap_scan_outer cfg timeline soc prof ceil (b, m) cs = (b', m') \<Longrightarrow>
     m \<le> m' \<and>
     (\<forall>c\<in>set cs. \<forall>e<length timeline.
        swap_source_ok cfg timeline ceil c \<and> swap_pair_ok cfg timeline soc prof c e \<longrightarrow>
        price (timeline ! e) - price (timeline ! c) \<le> m') \<and>
     ((b', m') = (b, m) \<or>
      (\<exists>c\<in>set cs. \<exists>e<length timeline. b' = Some (c, e) \<and>
         swap_source_ok cfg timeline ceil c \<and> swap_pair_ok cfg timeline soc prof c e \<and>
         m' = price (timeline ! e) - price (timeline ! c) \<and> m < m'))"
proof (induction cs arbitrary: b m)
  case Nil
  then show ?case by simp
next
  case (Cons c cs)
  show ?case
  proof (cases "swap_source_ok cfg timeline ceil c")
    case False
    with Cons.prems have "swap_scan_outer cfg timeline soc prof ceil (b, m) cs = (b', m')"
      by simp
    from Cons.IH [OF this] False show ?thesis by fastforce
  next
    case True
    obtain b1 m1 where inner:
      "swap_scan_inner cfg timeline soc prof c (b, m) [0..<length timeline] = (b1, m1)"
      by (cases "swap_scan_inner cfg timeline soc prof c (b, m) [0..<length timeline]")
    with True Cons.prems have rest:
      "swap_scan_outer cfg timeline soc prof ceil (b1, m1) cs = (b', m')" by simp
    note I = swap_scan_inner_spec [OF inner]
    note O = Cons.IH [OF rest]
    from I have I1: "m \<le> m1" by simp
    from O have O1: "m1 \<le> m'" by simp
    from I1 O1 have mono: "m \<le> m'" by linarith
    have upper: "\<forall>c'\<in>set (c # cs). \<forall>e<length timeline.
        swap_source_ok cfg timeline ceil c' \<and> swap_pair_ok cfg timeline soc prof c' e \<longrightarrow>
        price (timeline ! e) - price (timeline ! c') \<le> m'"
    proof (intro ballI allI impI)
      fix c' e assume c': "c' \<in> set (c # cs)" and e: "e < length timeline"
        and ok: "swap_source_ok cfg timeline ceil c' \<and> swap_pair_ok cfg timeline soc prof c' e"
      show "price (timeline ! e) - price (timeline ! c') \<le> m'"
      proof (cases "c' = c")
        case True
        from I e ok True have "price (timeline ! e) - price (timeline ! c) \<le> m1" by simp
        with O1 True show ?thesis by simp
      next
        case False
        with c' have "c' \<in> set cs" by simp
        with O e ok show ?thesis by blast
      qed
    qed
    have pick: "(b', m') = (b, m) \<or>
      (\<exists>c'\<in>set (c # cs). \<exists>e<length timeline. b' = Some (c', e) \<and>
         swap_source_ok cfg timeline ceil c' \<and> swap_pair_ok cfg timeline soc prof c' e \<and>
         m' = price (timeline ! e) - price (timeline ! c') \<and> m < m')"
    proof -
      from O consider (same) "(b', m') = (b1, m1)"
        | (later) "\<exists>c'\<in>set cs. \<exists>e<length timeline. b' = Some (c', e) \<and>
         swap_source_ok cfg timeline ceil c' \<and> swap_pair_ok cfg timeline soc prof c' e \<and>
         m' = price (timeline ! e) - price (timeline ! c') \<and> m1 < m'" by blast
      then show ?thesis
      proof cases
        case same
        from I consider "(b1, m1) = (b, m)"
          | "\<exists>e\<in>set [0..<length timeline]. b1 = Some (c, e) \<and>
               swap_pair_ok cfg timeline soc prof c e \<and>
               m1 = price (timeline ! e) - price (timeline ! c) \<and> m < m1" by blast
        then show ?thesis
        proof cases
          case 1
          with same show ?thesis by simp
        next
          case 2
          then obtain e where "e < length timeline" "b1 = Some (c, e)"
            "swap_pair_ok cfg timeline soc prof c e"
            "m1 = price (timeline ! e) - price (timeline ! c)" "m < m1" by auto
          with same True show ?thesis by auto
        qed
      next
        case later
        then obtain c' e where "c' \<in> set cs" "e < length timeline" "b' = Some (c', e)"
          "swap_source_ok cfg timeline ceil c'" "swap_pair_ok cfg timeline soc prof c' e"
          "m' = price (timeline ! e) - price (timeline ! c')" "m1 < m'" by blast
        moreover note I1
        ultimately show ?thesis by (intro disjI2 bexI [of _ c'] exI [of _ e]) auto
      qed
    qed
    from mono upper pick show ?thesis by blast
  qed
qed


declare phase_3_loop.simps [simp del] phase_4_loop.simps [simp del] phase_2_loop.simps [simp del]

lemma find_best_swap_spec:
  assumes prof: "calculate_battery_profile_from_list cfg soc (map grid_wh timeline) timeline = Inr prof"
  shows "case find_best_swap cfg timeline soc ceil of
           Inl e \<Rightarrow> False
         | Inr None \<Rightarrow>
             (\<forall>c<length timeline. \<forall>e<length timeline.
                swap_source_ok cfg timeline ceil c \<and> swap_pair_ok cfg timeline soc prof c e \<longrightarrow>
                price (timeline ! e) - price (timeline ! c) \<le> 0)
         | Inr (Some (s, d)) \<Rightarrow>
             s < length timeline \<and> d < length timeline \<and>
             swap_source_ok cfg timeline ceil s \<and> swap_pair_ok cfg timeline soc prof s d \<and>
             0 < price (timeline ! d) - price (timeline ! s) \<and>
             (\<forall>c<length timeline. \<forall>e<length timeline.
                swap_source_ok cfg timeline ceil c \<and> swap_pair_ok cfg timeline soc prof c e \<longrightarrow>
                price (timeline ! e) - price (timeline ! c)
                  \<le> price (timeline ! d) - price (timeline ! s))"
proof -
  obtain b' m' where scan:
    "swap_scan_outer cfg timeline soc prof ceil (None, 0) [0..<length timeline] = (b', m')"
    by (cases "swap_scan_outer cfg timeline soc prof ceil (None, 0) [0..<length timeline]")
  from prof scan have res: "find_best_swap cfg timeline soc ceil = Inr b'"
    by (simp add: find_best_swap_def)
  note S = swap_scan_outer_spec [OF scan]
  from S have upper: "\<forall>c<length timeline. \<forall>e<length timeline.
        swap_source_ok cfg timeline ceil c \<and> swap_pair_ok cfg timeline soc prof c e \<longrightarrow>
        price (timeline ! e) - price (timeline ! c) \<le> m'" by simp
  from S consider (none) "b' = None" "m' = 0"
    | (some) c e where "c < length timeline" "e < length timeline" "b' = Some (c, e)"
        "swap_source_ok cfg timeline ceil c" "swap_pair_ok cfg timeline soc prof c e"
        "m' = price (timeline ! e) - price (timeline ! c)" "0 < m'"
    by auto
  then show ?thesis
  proof cases
    case none
    with res upper show ?thesis by simp
  next
    case some
    with res upper show ?thesis by simp
  qed
qed

lemma phase_3_loop_total:
  "swap_iter \<le> 500 \<Longrightarrow>
   \<exists>timeline' n. phase_3_loop cfg soc ceil swap_iter timeline = Inr (timeline', n) \<and> n \<le> 500"
proof (induction cfg soc ceil swap_iter timeline rule: phase_3_loop.induct)
  case (1 cfg soc ceil swap_iter timeline)
  obtain prof where prof:
    "calculate_battery_profile_from_list cfg soc (map grid_wh timeline) timeline = Inr prof"
    using profile_of_timeline by blast
  show ?case
  proof (cases "swap_iter < 500")
    case False
    with "1.prems" show ?thesis by (subst phase_3_loop.simps) simp
  next
    case True
    show ?thesis
    proof (cases "find_best_swap cfg timeline soc ceil")
      case (Inl e)
      with find_best_swap_spec [OF prof, of ceil] show ?thesis by simp
    next
      case (Inr best)
      show ?thesis
      proof (cases best)
        case None
        with Inr True show ?thesis by (subst phase_3_loop.simps) simp
      next
        case (Some sd)
        obtain s d where sd: "sd = (s, d)" by (cases sd)
        from True have "swap_iter + 1 \<le> 500" by simp
        from "1.IH" [OF True Inr Some sd [symmetric] this] Inr Some sd True
        show ?thesis by (subst phase_3_loop.simps) simp
      qed
    qed
  qed
qed

lemma phase_4_loop_bound:
  "arb_iter \<le> 500 \<Longrightarrow> phase_4_loop cfg soc arb_iter st = Inr (timeline', n) \<Longrightarrow> n \<le> 500"
proof (induction cfg soc arb_iter st rule: phase_4_loop.induct)
  case (1 cfg soc arb_iter st)
  obtain timeline hourly_usage where st: "st = (timeline, hourly_usage)" by (cases st)
  show ?case
  proof (cases "arb_iter < 500")
    case False
    with "1.prems" st show ?thesis by (subst (asm) phase_4_loop.simps) simp
  next
    case True
    from "1.prems"(2) True st have run:
      "(case find_best_arb cfg timeline hourly_usage soc of
              Inl e \<Rightarrow> Inl e
            | Inr None \<Rightarrow> Inr (timeline, arb_iter + 1)
            | Inr (Some (b, s)) \<Rightarrow>
                (let timeline' = sub_grid (add_grid timeline b 50) s 50
                 in case dict_add hourly_usage (hour (timeline' ! b)) 50 of
                      Inl e \<Rightarrow> Inl e
                    | Inr hourly_usage' \<Rightarrow>
                        phase_4_loop cfg soc (arb_iter + 1) (timeline', hourly_usage')))
        = Inr (timeline', n)"
      by (subst (asm) phase_4_loop.simps) simp
    show ?thesis
    proof (cases "find_best_arb cfg timeline hourly_usage soc")
      case (Inl e)
      with run show ?thesis by simp
    next
      case (Inr best)
      show ?thesis
      proof (cases best)
        case None
        with run Inr True show ?thesis by auto
      next
        case (Some bs)
        obtain b s where bs: "bs = (b, s)" by (cases bs)
        define tl1 where "tl1 = sub_grid (add_grid timeline b 50) s 50"
        show ?thesis
        proof (cases "dict_add hourly_usage (hour (tl1 ! b)) 50")
          case (Inl e)
          with run Inr Some bs show ?thesis by (simp add: tl1_def Let_def)
        next
          case (Inr hu')
          from run \<open>find_best_arb cfg timeline hourly_usage soc = Inr best\<close> Some bs Inr
          have "phase_4_loop cfg soc (arb_iter + 1) (tl1, hu') = Inr (timeline', n)"
            by (simp add: tl1_def Let_def)
          moreover from True have "arb_iter + 1 \<le> 500" by simp
          ultimately show ?thesis
            using "1.IH" [OF st [symmetric] True
                \<open>find_best_arb cfg timeline hourly_usage soc = Inr best\<close> Some bs [symmetric]
                tl1_def Inr]
            by (simp add: tl1_def)
        qed
      qed
    qed
  qed
qed


text \<open>
  C7, as amended. The price optimization always ends, without an exception, after at most
  500 rounds of its loop. A round that finds no pair ends the loop, and it finds none
  exactly when no pair that passes the checks has a positive spread. A round that accepts a
  pair accepts one that passes the checks and has the largest spread of all such pairs;
  that spread is positive and at least the cycling cost, so the gain of the swap, spread
  minus cycling cost, is at least zero, and the loop goes on with 50 Wh moved. The loop of
  the active arbitrage never counts beyond 500 either.
\<close>

theorem C7_swap_pass_bounded_and_greedy:
  "(\<exists>timeline' n. phase_3_loop cfg soc ceil 0 timeline = Inr (timeline', n) \<and> n \<le> 500) \<and>
   (\<exists>prof.
      calculate_battery_profile_from_list cfg soc (map grid_wh timeline) timeline = Inr prof \<and>
      (case find_best_swap cfg timeline soc ceil of
         Inl e \<Rightarrow> False
       | Inr None \<Rightarrow>
           (\<forall>c<length timeline. \<forall>e<length timeline.
              swap_source_ok cfg timeline ceil c \<and> swap_pair_ok cfg timeline soc prof c e \<longrightarrow>
              price (timeline ! e) - price (timeline ! c) \<le> 0) \<and>
           (\<forall>swap_iter<500.
              phase_3_loop cfg soc ceil swap_iter timeline = Inr (timeline, swap_iter + 1))
       | Inr (Some (s, d)) \<Rightarrow>
           s < d \<and> d < length timeline \<and>
           swap_source_ok cfg timeline ceil s \<and> swap_pair_ok cfg timeline soc prof s d \<and>
           (\<forall>c<length timeline. \<forall>e<length timeline.
              swap_source_ok cfg timeline ceil c \<and> swap_pair_ok cfg timeline soc prof c e \<longrightarrow>
              price (timeline ! e) - price (timeline ! c)
                \<le> price (timeline ! d) - price (timeline ! s)) \<and>
           0 < price (timeline ! d) - price (timeline ! s) \<and>
           BATTERY_CYCLE_COST_ORE cfg \<le> price (timeline ! d) - price (timeline ! s) \<and>
           (\<forall>swap_iter<500.
              phase_3_loop cfg soc ceil swap_iter timeline
                = phase_3_loop cfg soc ceil (swap_iter + 1)
                    (sub_grid (add_grid timeline s 50) d 50)))) \<and>
   (\<forall>timeline' n.
      phase_4_loop cfg soc 0 (timeline, hourly_usage) = Inr (timeline', n) \<longrightarrow> n \<le> 500)"
proof -
  have A: "\<exists>timeline' n. phase_3_loop cfg soc ceil 0 timeline = Inr (timeline', n) \<and> n \<le> 500"
    by (rule phase_3_loop_total) simp
  have C: "\<forall>timeline' n.
      phase_4_loop cfg soc 0 (timeline, hourly_usage) = Inr (timeline', n) \<longrightarrow> n \<le> 500"
    using phase_4_loop_bound [of 0] by blast
  obtain prof where prof:
    "calculate_battery_profile_from_list cfg soc (map grid_wh timeline) timeline = Inr prof"
    using profile_of_timeline by blast
  note F = find_best_swap_spec [OF prof, of ceil]
  have B: "case find_best_swap cfg timeline soc ceil of
         Inl e \<Rightarrow> False
       | Inr None \<Rightarrow>
           (\<forall>c<length timeline. \<forall>e<length timeline.
              swap_source_ok cfg timeline ceil c \<and> swap_pair_ok cfg timeline soc prof c e \<longrightarrow>
              price (timeline ! e) - price (timeline ! c) \<le> 0) \<and>
           (\<forall>swap_iter<500.
              phase_3_loop cfg soc ceil swap_iter timeline = Inr (timeline, swap_iter + 1))
       | Inr (Some (s, d)) \<Rightarrow>
           s < d \<and> d < length timeline \<and>
           swap_source_ok cfg timeline ceil s \<and> swap_pair_ok cfg timeline soc prof s d \<and>
           (\<forall>c<length timeline. \<forall>e<length timeline.
              swap_source_ok cfg timeline ceil c \<and> swap_pair_ok cfg timeline soc prof c e \<longrightarrow>
              price (timeline ! e) - price (timeline ! c)
                \<le> price (timeline ! d) - price (timeline ! s)) \<and>
           0 < price (timeline ! d) - price (timeline ! s) \<and>
           BATTERY_CYCLE_COST_ORE cfg \<le> price (timeline ! d) - price (timeline ! s) \<and>
           (\<forall>swap_iter<500.
              phase_3_loop cfg soc ceil swap_iter timeline
                = phase_3_loop cfg soc ceil (swap_iter + 1)
                    (sub_grid (add_grid timeline s 50) d 50))"
  proof (cases "find_best_swap cfg timeline soc ceil")
    case (Inl e)
    with F show ?thesis by simp
  next
    case (Inr best)
    show ?thesis
    proof (cases best)
      case None
      have "phase_3_loop cfg soc ceil swap_iter timeline = Inr (timeline, swap_iter + 1)"
        if "swap_iter < 500" for swap_iter
        using that Inr None by (subst phase_3_loop.simps) simp
      with F Inr None show ?thesis by simp
    next
      case (Some sd)
      obtain s d where sd: "sd = (s, d)" by (cases sd)
      have step: "phase_3_loop cfg soc ceil swap_iter timeline
                = phase_3_loop cfg soc ceil (swap_iter + 1)
                    (sub_grid (add_grid timeline s 50) d 50)"
        if "swap_iter < 500" for swap_iter
        using that Inr Some sd by (subst phase_3_loop.simps) simp
      from F Inr Some sd have ok: "swap_pair_ok cfg timeline soc prof s d" by simp
      then have "s < d" "BATTERY_CYCLE_COST_ORE cfg \<le> price (timeline ! d) - price (timeline ! s)"
        by (simp_all add: swap_pair_ok_def Let_def)
      with F Inr Some sd step show ?thesis by simp
    qed
  qed
  show ?thesis
    apply (intro conjI exI [of _ prof])
       apply (rule A)
      apply (rule prof)
     apply (rule B)
    apply (rule C)
    done
qed

theorem C7_swap_pass_bounded_and_greedy_witness:
  "find_best_swap demo_cfg fill_timeline 500 1000 = Inr (Some (0, 1)) \<and>
   price (fill_timeline ! 1) - price (fill_timeline ! 0) = 40 \<and>
   BATTERY_CYCLE_COST_ORE demo_cfg = 5 \<and>
   phase_3_loop demo_cfg 500 1000 0 fill_timeline
     = phase_3_loop demo_cfg 500 1000 1 (sub_grid (add_grid fill_timeline 0 50) 1 50) \<and>
   (\<exists>timeline' n. phase_3_loop demo_cfg 500 1000 0 fill_timeline = Inr (timeline', n) \<and> n \<le> 500)"
proof -
  have best: "find_best_swap demo_cfg fill_timeline 500 1000 = Inr (Some (0, 1))" by code_simp
  have spread: "price (fill_timeline ! 1) - price (fill_timeline ! 0) = 40"
    by (simp add: fill_timeline_def mk_slot_def)
  have cost: "BATTERY_CYCLE_COST_ORE demo_cfg = 5" by (simp add: demo_cfg_def)
  note T = C7_swap_pass_bounded_and_greedy [of demo_cfg 500 1000 fill_timeline Map.empty]
  from T have total: "\<exists>timeline' n. phase_3_loop demo_cfg 500 1000 0 fill_timeline = Inr (timeline', n) \<and> n \<le> 500"
    by blast
  from T best have "\<forall>swap_iter<500.
              phase_3_loop demo_cfg 500 1000 swap_iter fill_timeline
                = phase_3_loop demo_cfg 500 1000 (swap_iter + 1)
                    (sub_grid (add_grid fill_timeline 0 50) 1 50)"
    by auto
  then have "phase_3_loop demo_cfg 500 1000 0 fill_timeline
     = phase_3_loop demo_cfg 500 1000 1 (sub_grid (add_grid fill_timeline 0 50) 1 50)"
    by force
  with best spread cost total show ?thesis by blast
qed

text \<open>
  The claim as stated fails where the spread equals the cycling cost: the swap is accepted
  and its gain is zero.
\<close>

theorem C7_swap_without_gain_counterexample:
  "find_best_swap demo_cfg even_timeline 500 1000 = Inr (Some (0, 1)) \<and>
   phase_3_loop demo_cfg 500 1000 0 even_timeline
     = Inr ([mk_slot 0 ''10:00'' ''10'' 10 100 100, mk_slot 1 ''10:15'' ''10'' 15 100 (-100)], 3) \<and>
   \<not> 0 < (price (even_timeline ! 1) - price (even_timeline ! 0))
           - BATTERY_CYCLE_COST_ORE demo_cfg"
proof (intro conjI)
  show "find_best_swap demo_cfg even_timeline 500 1000 = Inr (Some (0, 1))" by code_simp
  show "phase_3_loop demo_cfg 500 1000 0 even_timeline
     = Inr ([mk_slot 0 ''10:00'' ''10'' 10 100 100, mk_slot 1 ''10:15'' ''10'' 15 100 (-100)], 3)"
    by code_simp
  show "\<not> 0 < (price (even_timeline ! 1) - price (even_timeline ! 0))
           - BATTERY_CYCLE_COST_ORE demo_cfg"
    by (simp add: even_timeline_def mk_slot_def demo_cfg_def)
qed

subsection \<open>Peak shaving\<close>

lemma peak_shave_dis_bounds:
  assumes "0 \<le> MAX_BATTERY_OUTPUT_PER_QUARTER_WH cfg" and "MIN_BATTERY_BUFFER_WH cfg \<le> soc"
  shows "0 \<le> peak_shave_dis cfg optimal soc item"
    and "peak_shave_dis cfg optimal soc item \<le> MAX_BATTERY_OUTPUT_PER_QUARTER_WH cfg"
    and "MIN_BATTERY_BUFFER_WH cfg \<le> soc - peak_shave_dis cfg optimal soc item"
  using assms by (auto simp: peak_shave_dis_def Let_def)

lemma peak_shave_dis_capped:
  assumes "0 \<le> MAX_BATTERY_OUTPUT_PER_QUARTER_WH cfg" and "MIN_BATTERY_BUFFER_WH cfg \<le> soc"
    and "soc - min (MAX_BATTERY_OUTPUT_PER_QUARTER_WH cfg)
                 (max 0 (base_net_load_wh item - max 0 (optimal - BIAS_WH_PER_QUARTER cfg)))
           < MIN_BATTERY_BUFFER_WH cfg"
  shows "peak_shave_dis cfg optimal soc item = soc - MIN_BATTERY_BUFFER_WH cfg"
    and "max 0 (optimal - BIAS_WH_PER_QUARTER cfg)
           < base_net_load_wh item - peak_shave_dis cfg optimal soc item"
  using assms by (auto simp: peak_shave_dis_def Let_def min_def max_def split: if_splits)

lemma length_phase_1_loop [simp]:
  "length (phase_1_loop cfg optimal soc timeline) = length timeline"
  by (induction timeline arbitrary: soc) (simp_all add: Let_def)

lemma phase_1_loop_nth:
  assumes "i < length timeline"
  shows "base_net_load_wh (phase_1_loop cfg optimal soc timeline ! i) = base_net_load_wh (timeline ! i) \<and>
         slot_discharge cfg (phase_1_loop cfg optimal soc timeline ! i)
           = peak_shave_dis cfg optimal
               (if i = 0 then soc else batt_wh (phase_1_loop cfg optimal soc timeline ! (i - 1)))
               (timeline ! i) \<and>
         batt_wh (phase_1_loop cfg optimal soc timeline ! i)
           = (if i = 0 then soc else batt_wh (phase_1_loop cfg optimal soc timeline ! (i - 1)))
             - slot_discharge cfg (phase_1_loop cfg optimal soc timeline ! i)"
  using assms
proof (induction timeline arbitrary: soc i)
  case Nil
  then show ?case by simp
next
  case (Cons item rest)
  show ?case
  proof (cases i)
    case 0
    then show ?thesis by (simp add: Let_def slot_discharge_def)
  next
    case (Suc k)
    with Cons.prems have k: "k < length rest" by simp
    from Cons.IH [OF k, of "soc - peak_shave_dis cfg optimal soc item"] Suc
    show ?thesis by (cases k) (simp_all add: Let_def)
  qed
qed

lemma phase_1_loop_reserve:
  assumes "0 \<le> MAX_BATTERY_OUTPUT_PER_QUARTER_WH cfg" and "MIN_BATTERY_BUFFER_WH cfg \<le> soc"
    and "i < length timeline"
  shows "MIN_BATTERY_BUFFER_WH cfg \<le> batt_wh (phase_1_loop cfg optimal soc timeline ! i)"
  using assms(2,3)
proof (induction timeline arbitrary: soc i)
  case Nil
  then show ?case by simp
next
  case (Cons item rest)
  note d = peak_shave_dis_bounds [OF assms(1) Cons.prems(1), of optimal item]
  show ?case
  proof (cases i)
    case 0
    with d show ?thesis by (simp add: Let_def)
  next
    case (Suc k)
    with Cons.prems have k: "k < length rest" by simp
    from Cons.IH [OF d(3) k] Suc show ?thesis by (simp add: Let_def)
  qed
qed

lemma phase_1_loop_cumulative:
  "batt_wh (phase_1_loop cfg optimal soc timeline ! i)
     = soc - sum_list (map (slot_discharge cfg) (take (Suc i) (phase_1_loop cfg optimal soc timeline)))"
  if "i < length timeline"
  using that
proof (induction timeline arbitrary: soc i)
  case Nil
  then show ?case by simp
next
  case (Cons item rest)
  show ?case
  proof (cases i)
    case 0
    then show ?thesis by (simp add: Let_def slot_discharge_def)
  next
    case (Suc k)
    with Cons.prems have k: "k < length rest" by simp
    from Cons.IH [OF k, of "soc - peak_shave_dis cfg optimal soc item"] Suc
    show ?thesis by (simp add: Let_def slot_discharge_def)
  qed
qed

lemma phase_1_loop_total_discharge:
  assumes "0 \<le> MAX_BATTERY_OUTPUT_PER_QUARTER_WH cfg" and "MIN_BATTERY_BUFFER_WH cfg \<le> soc"
  shows "sum_list (map (slot_discharge cfg) (phase_1_loop cfg optimal soc timeline))
           \<le> soc - MIN_BATTERY_BUFFER_WH cfg"
  using assms(2)
proof (induction timeline arbitrary: soc)
  case Nil
  then show ?case by simp
next
  case (Cons item rest)
  note d = peak_shave_dis_bounds [OF assms(1) Cons.prems(1), of optimal item]
  from Cons.IH [OF d(3)] show ?case by (simp add: Let_def slot_discharge_def)
qed


text \<open>
  C6, as amended. For a rate limit that is not negative and a starting charge of at least
  the minimum reserve, after \<^verbatim>\<open>phase_1_peak_shaving\<close> every slot discharges at least 0
  and at most the rate limit; the tracked charge \<open>batt_wh\<close> is the charge before the slot
  minus that discharge and never falls below the reserve; where the rate-limited discharge
  would breach the reserve, the discharge is the charge above the reserve and the import
  of the slot exceeds the level \<open>max(0, optimal - bias)\<close> at which the phase holds it; and
  the cumulative discharge, up to any slot and over the whole timeline, is at most the
  starting charge minus the reserve.
\<close>

theorem C6_peak_shaving_feasible:
  assumes "0 \<le> MAX_BATTERY_OUTPUT_PER_QUARTER_WH cfg"
    and "MIN_BATTERY_BUFFER_WH cfg \<le> current_battery_wh"
    and "phase_1_peak_shaving cfg timeline current_battery_wh = (timeline', optimal, warning_flag)"
  shows "length timeline' = length timeline \<and>
    (\<forall>i<length timeline.
       base_net_load_wh (timeline' ! i) = base_net_load_wh (timeline ! i) \<and>
       0 \<le> slot_discharge cfg (timeline' ! i) \<and>
       slot_discharge cfg (timeline' ! i) \<le> MAX_BATTERY_OUTPUT_PER_QUARTER_WH cfg \<and>
       batt_wh (timeline' ! i)
         = (if i = 0 then current_battery_wh else batt_wh (timeline' ! (i - 1)))
           - slot_discharge cfg (timeline' ! i) \<and>
       MIN_BATTERY_BUFFER_WH cfg \<le> batt_wh (timeline' ! i) \<and>
       ((if i = 0 then current_battery_wh else batt_wh (timeline' ! (i - 1)))
          - min (MAX_BATTERY_OUTPUT_PER_QUARTER_WH cfg)
              (max 0 (base_net_load_wh (timeline ! i) - max 0 (optimal - BIAS_WH_PER_QUARTER cfg)))
          < MIN_BATTERY_BUFFER_WH cfg \<longrightarrow>
        slot_discharge cfg (timeline' ! i)
          = (if i = 0 then current_battery_wh else batt_wh (timeline' ! (i - 1)))
            - MIN_BATTERY_BUFFER_WH cfg \<and>
        max 0 (optimal - BIAS_WH_PER_QUARTER cfg)
          < grid_wh (timeline' ! i) + BIAS_WH_PER_QUARTER cfg) \<and>
       sum_list (map (slot_discharge cfg) (take (Suc i) timeline'))
         \<le> current_battery_wh - MIN_BATTERY_BUFFER_WH cfg) \<and>
    sum_list (map (slot_discharge cfg) timeline')
      \<le> current_battery_wh - MIN_BATTERY_BUFFER_WH cfg"
proof -
  from assms(3) have out: "timeline' = phase_1_loop cfg optimal current_battery_wh timeline"
    by (auto simp: phase_1_peak_shaving_def Let_def)
  have len: "length timeline' = length timeline" by (simp add: out)
  have total: "sum_list (map (slot_discharge cfg) timeline')
      \<le> current_battery_wh - MIN_BATTERY_BUFFER_WH cfg"
    unfolding out by (rule phase_1_loop_total_discharge [OF assms(1,2)])
  have slot: "base_net_load_wh (timeline' ! i) = base_net_load_wh (timeline ! i) \<and>
       0 \<le> slot_discharge cfg (timeline' ! i) \<and>
       slot_discharge cfg (timeline' ! i) \<le> MAX_BATTERY_OUTPUT_PER_QUARTER_WH cfg \<and>
       batt_wh (timeline' ! i)
         = (if i = 0 then current_battery_wh else batt_wh (timeline' ! (i - 1)))
           - slot_discharge cfg (timeline' ! i) \<and>
       MIN_BATTERY_BUFFER_WH cfg \<le> batt_wh (timeline' ! i) \<and>
       ((if i = 0 then current_battery_wh else batt_wh (timeline' ! (i - 1)))
          - min (MAX_BATTERY_OUTPUT_PER_QUARTER_WH cfg)
              (max 0 (base_net_load_wh (timeline ! i) - max 0 (optimal - BIAS_WH_PER_QUARTER cfg)))
          < MIN_BATTERY_BUFFER_WH cfg \<longrightarrow>
        slot_discharge cfg (timeline' ! i)
          = (if i = 0 then current_battery_wh else batt_wh (timeline' ! (i - 1)))
            - MIN_BATTERY_BUFFER_WH cfg \<and>
        max 0 (optimal - BIAS_WH_PER_QUARTER cfg)
          < grid_wh (timeline' ! i) + BIAS_WH_PER_QUARTER cfg) \<and>
       sum_list (map (slot_discharge cfg) (take (Suc i) timeline'))
         \<le> current_battery_wh - MIN_BATTERY_BUFFER_WH cfg"
    if i: "i < length timeline" for i
  proof -
    define start where
      "start = (if i = 0 then current_battery_wh else batt_wh (timeline' ! (i - 1)))"
    have start_ok: "MIN_BATTERY_BUFFER_WH cfg \<le> start"
    proof (cases i)
      case 0
      with assms(2) show ?thesis by (simp add: start_def)
    next
      case (Suc k)
      with i have "k < length timeline" by simp
      from phase_1_loop_reserve [OF assms(1,2) this, of optimal] Suc
      show ?thesis by (simp add: start_def out)
    qed
    from phase_1_loop_nth [OF i, of cfg optimal current_battery_wh]
    have load: "base_net_load_wh (timeline' ! i) = base_net_load_wh (timeline ! i)"
      and dis: "slot_discharge cfg (timeline' ! i) = peak_shave_dis cfg optimal start (timeline ! i)"
      and batt: "batt_wh (timeline' ! i) = start - slot_discharge cfg (timeline' ! i)"
      by (simp_all add: out start_def)
    note b = peak_shave_dis_bounds [OF assms(1) start_ok, of optimal "timeline ! i"]
    have reserve: "MIN_BATTERY_BUFFER_WH cfg \<le> batt_wh (timeline' ! i)"
      using b(3) batt dis by simp
    have capped: "slot_discharge cfg (timeline' ! i) = start - MIN_BATTERY_BUFFER_WH cfg \<and>
        max 0 (optimal - BIAS_WH_PER_QUARTER cfg)
          < grid_wh (timeline' ! i) + BIAS_WH_PER_QUARTER cfg"
      if "start - min (MAX_BATTERY_OUTPUT_PER_QUARTER_WH cfg)
              (max 0 (base_net_load_wh (timeline ! i) - max 0 (optimal - BIAS_WH_PER_QUARTER cfg)))
          < MIN_BATTERY_BUFFER_WH cfg"
    proof -
      note c = peak_shave_dis_capped [OF assms(1) start_ok that]
      have "grid_wh (timeline' ! i) + BIAS_WH_PER_QUARTER cfg
              = base_net_load_wh (timeline ! i) - slot_discharge cfg (timeline' ! i)"
        using load by (simp add: slot_discharge_def)
      with c dis show ?thesis by simp
    qed
    have cum: "sum_list (map (slot_discharge cfg) (take (Suc i) timeline'))
         \<le> current_battery_wh - MIN_BATTERY_BUFFER_WH cfg"
      using phase_1_loop_cumulative [OF i, of cfg optimal current_battery_wh] reserve
      by (simp add: out)
    from load b(1,2) dis batt reserve capped cum show ?thesis
      unfolding start_def by simp
  qed
  from len slot total show ?thesis by blast
qed

theorem C6_peak_shaving_feasible_witness:
  "0 \<le> MAX_BATTERY_OUTPUT_PER_QUARTER_WH demo_cfg \<and>
   MIN_BATTERY_BUFFER_WH demo_cfg \<le> 500 \<and>
   phase_1_peak_shaving demo_cfg fill_timeline 500
     = ([(mk_slot 0 ''10:00'' ''10'' 10 300 0)\<lparr>batt_wh := 200\<rparr>,
         (mk_slot 1 ''10:15'' ''10'' 50 300 200)\<lparr>batt_wh := 100\<rparr>], 0, False) \<and>
   sum_list (map (slot_discharge demo_cfg)
       [(mk_slot 0 ''10:00'' ''10'' 10 300 0)\<lparr>batt_wh := 200\<rparr>,
        (mk_slot 1 ''10:15'' ''10'' 50 300 200)\<lparr>batt_wh := 100\<rparr>])
     \<le> 500 - MIN_BATTERY_BUFFER_WH demo_cfg"
proof -
  have a: "0 \<le> MAX_BATTERY_OUTPUT_PER_QUARTER_WH demo_cfg" by (simp add: demo_cfg_def)
  have b: "MIN_BATTERY_BUFFER_WH demo_cfg \<le> 500" by (simp add: demo_cfg_def)
  have c: "phase_1_peak_shaving demo_cfg fill_timeline 500
     = ([(mk_slot 0 ''10:00'' ''10'' 10 300 0)\<lparr>batt_wh := 200\<rparr>,
         (mk_slot 1 ''10:15'' ''10'' 50 300 200)\<lparr>batt_wh := 100\<rparr>], 0, False)"
    by code_simp
  from C6_peak_shaving_feasible [OF a b c] a b c show ?thesis by blast
qed

text \<open>
  Without the condition on the starting charge the claim fails: from 50 Wh, below the
  reserve of 100 Wh, nothing is discharged, the tracked charge stays below the reserve and
  the cumulative discharge 0 exceeds the negative difference.
\<close>

theorem C6_start_below_reserve_counterexample:
  "batt_wh (fst (phase_1_peak_shaving demo_cfg drain_timeline 50) ! 0)
     < MIN_BATTERY_BUFFER_WH demo_cfg \<and>
   \<not> sum_list (map (slot_discharge demo_cfg) (fst (phase_1_peak_shaving demo_cfg drain_timeline 50)))
       \<le> 50 - MIN_BATTERY_BUFFER_WH demo_cfg"
  by (simp add: phase_1_peak_shaving_def demo_cfg_def drain_timeline_def mk_slot_def
      peak_shave_dis_def slot_discharge_def Let_def)

subsection \<open>The reallocation within an hour\<close>

lemma set_grid_nth:
  "j < length timeline \<Longrightarrow>
   set_grid timeline i v ! j = (if j = i then (timeline ! j)\<lparr>grid_wh := v\<rparr> else timeline ! j)"
  by (simp add: set_grid_def nth_list_update)

lemma assign_allocated_nth:
  "assign_allocated cfg allocated timeline js = Inr timeline1 \<Longrightarrow>
   length timeline1 = length timeline \<and>
   (\<forall>j<length timeline. timeline1 ! j =
      (if j \<in> set js
       then (timeline ! j)\<lparr>grid_wh := the (allocated j) - BIAS_WH_PER_QUARTER cfg\<rparr>
       else timeline ! j))"
proof (induction js arbitrary: timeline)
  case Nil
  then show ?case by simp
next
  case (Cons i js)
  from Cons.prems obtain v where v: "allocated i = Some v"
    and rest: "assign_allocated cfg allocated
                 (set_grid timeline i (v - BIAS_WH_PER_QUARTER cfg)) js = Inr timeline1"
    by (auto split: option.splits)
  from Cons.IH [OF rest] v show ?case
    by (auto simp: set_grid_nth)
qed


lemma restore_grids_nth:
  "\<forall>j\<in>set js. saved j = Some (g j) \<Longrightarrow>
   \<exists>timeline2. restore_grids saved timeline js = Inr timeline2 \<and>
     length timeline2 = length timeline \<and>
     (\<forall>j<length timeline. timeline2 ! j =
        (if j \<in> set js then (timeline ! j)\<lparr>grid_wh := g j\<rparr> else timeline ! j))"
proof (induction js arbitrary: timeline)
  case Nil
  then show ?case by simp
next
  case (Cons i js)
  from Cons.prems have i: "saved i = Some (g i)" and rest: "\<forall>j\<in>set js. saved j = Some (g j)"
    by simp_all
  from Cons.IH [OF rest, of "set_grid timeline i (g i)"] i show ?case
    by (auto simp: set_grid_nth)
qed

lemma fold_original_grids:
  "fold (\<lambda>i m. m(i \<mapsto> grid_wh (timeline ! i))) js m j
     = (if j \<in> set js then Some (grid_wh (timeline ! j)) else m j)"
  by (induction js arbitrary: m) auto

lemma original_grids_lookup:
  "j \<in> set js \<Longrightarrow> original_grids timeline js j = Some (grid_wh (timeline ! j))"
  by (simp add: original_grids_def fold_original_grids)

lemma restore_after_assign:
  assumes "assign_allocated cfg allocated timeline js = Inr timeline1"
  shows "restore_grids (original_grids timeline js) timeline1 js = Inr timeline"
proof -
  note A = assign_allocated_nth [OF assms]
  have "\<forall>j\<in>set js. original_grids timeline js j = Some (grid_wh (timeline ! j))"
    by (simp add: original_grids_lookup)
  from restore_grids_nth [OF this, of timeline1] obtain timeline2 where
    r: "restore_grids (original_grids timeline js) timeline1 js = Inr timeline2"
    and len: "length timeline2 = length timeline1"
    and nth: "\<forall>j<length timeline1. timeline2 ! j =
        (if j \<in> set js then (timeline1 ! j)\<lparr>grid_wh := grid_wh (timeline ! j)\<rparr>
         else timeline1 ! j)"
    by blast
  have "timeline2 = timeline"
  proof (rule nth_equalityI)
    show "length timeline2 = length timeline" using len A by simp
    fix j assume "j < length timeline2"
    with len A have j: "j < length timeline" "j < length timeline1" by simp_all
    with nth A show "timeline2 ! j = timeline ! j" by simp
  qed
  with r show ?thesis by simp
qed

lemma track_soc_sum:
  "track_soc cfg timeline soc js
     = soc - sum_list (map (\<lambda>i. slot_discharge cfg (timeline ! i)) js)"
  by (induction js arbitrary: soc) (simp_all add: Let_def slot_discharge_def)

text \<open>
  C5. When the new assignment of an hour fails the validation (the flag \<open>valid\<close> of the
  validation loop, which a discharge above the rate limit, a throttle violation or a
  running charge below the reserve clears), the round of that hour returns the timeline
  it started from, every slot with its former \<open>grid_wh\<close>, and the running charge is the
  former one minus the discharges computed from those restored values.
\<close>

theorem C5_failed_hour_is_rolled_back:
  assumes "indices = hour_indices timeline h"
    and "indices \<noteq> []"
    and "0 < hour_total_grid cfg timeline indices"
    and "tentative_assignment cfg timeline indices = Inr timeline1"
    and "\<not> snd (validate_hour cfg timeline1 current_soc True (sort indices))"
  shows "optimize_hour cfg (timeline, current_soc) h
           = Inr (timeline,
                  current_soc - sum_list (map (\<lambda>i. slot_discharge cfg (timeline ! i)) indices))"
proof -
  from assms(4) obtain allocated where
    "assign_allocated cfg allocated timeline indices = Inr timeline1"
    by (auto simp: tentative_assignment_def split: sum.splits)
  then have restored: "restore_grids (original_grids timeline indices) timeline1 indices = Inr timeline"
    by (rule restore_after_assign)
  obtain temp_soc valid where
    v: "validate_hour cfg timeline1 current_soc True (sort indices) = (temp_soc, valid)"
    by (cases "validate_hour cfg timeline1 current_soc True (sort indices)")
  with assms(5) have "\<not> valid" by simp
  with assms(1-4) restored v show ?thesis
    by (simp add: optimize_hour_def Let_def track_soc_sum)
qed

theorem C5_failed_hour_is_rolled_back_witness:
  "[0, 1] = hour_indices rate_timeline ''10'' \<and>
   [0, 1 :: nat] \<noteq> [] \<and>
   0 < hour_total_grid big_cfg rate_timeline [0, 1] \<and>
   tentative_assignment big_cfg rate_timeline [0, 1]
     = Inr [mk_slot 0 ''10:00'' ''10'' 50 1200 0, mk_slot 1 ''10:15'' ''10'' 10 1200 1200] \<and>
   \<not> snd (validate_hour big_cfg
            [mk_slot 0 ''10:00'' ''10'' 50 1200 0, mk_slot 1 ''10:15'' ''10'' 10 1200 1200]
            3000 True (sort [0, 1])) \<and>
   optimize_hour big_cfg (rate_timeline, 3000) ''10'' = Inr (rate_timeline, 1800)"
proof -
  have a: "[0, 1] = hour_indices rate_timeline ''10''" by code_simp
  have b: "[0, 1 :: nat] \<noteq> []" by simp
  have c: "0 < hour_total_grid big_cfg rate_timeline [0, 1]" by code_simp
  have d: "tentative_assignment big_cfg rate_timeline [0, 1]
     = Inr [mk_slot 0 ''10:00'' ''10'' 50 1200 0, mk_slot 1 ''10:15'' ''10'' 10 1200 1200]"
    by code_simp
  have e: "\<not> snd (validate_hour big_cfg
            [mk_slot 0 ''10:00'' ''10'' 50 1200 0, mk_slot 1 ''10:15'' ''10'' 10 1200 1200]
            3000 True (sort [0, 1]))" by code_simp
  have f: "3000 - sum_list (map (\<lambda>i. slot_discharge big_cfg (rate_timeline ! i)) [0, 1]) = 1800"
    by code_simp
  from C5_failed_hour_is_rolled_back [OF a b c d e] f a b c d e show ?thesis by simp
qed






lemma distinct_hour_indices [simp]: "distinct (hour_indices timeline h)"
  by (simp add: hour_indices_def)




lemma erase_grid_fields [simp]:
  "index (erase_grid x) = index x" "hour (erase_grid x) = hour x"
  "base_net_load_wh (erase_grid x) = base_net_load_wh x" "price (erase_grid x) = price x"
  "erase_grid (x\<lparr>grid_wh := v\<rparr>) = erase_grid x"
  by (simp_all add: erase_grid_def)











subsection \<open>A second run of the cheap-hour fill\<close>















text \<open>Peak shaving leaves every slot within the condition of the statement below.\<close>

lemma peak_shave_dis_ready:
  "0 \<le> base_net_load_wh item - peak_shave_dis cfg optimal soc item
   \<or> peak_shave_dis cfg optimal soc item < 1"
  by (auto simp: peak_shave_dis_def Let_def max_def)

lemma phase_1_loop_ready:
  "\<forall>x\<in>set (phase_1_loop cfg optimal soc timeline).
     0 \<le> grid_wh x + BIAS_WH_PER_QUARTER cfg
     \<or> base_net_load_wh x - (grid_wh x + BIAS_WH_PER_QUARTER cfg) < 1"
proof (induction timeline arbitrary: soc)
  case Nil
  then show ?case by simp
next
  case (Cons item rest)
  from peak_shave_dis_ready [of item cfg optimal soc] Cons.IH show ?case
    by (auto simp: Let_def)
qed




end
